theory Spec2Isabelle
  imports Complex_Main "HOL-Library.Log_Nat"
begin

chapter \<open>The CSE client of the Investera site\<close>

text \<open>
  A model of \<open>cseApi.js\<close>: the class \<open>CSEApi\<close>, which fetches four endpoints of the
  Colombo Stock Exchange API, caches each answer for 30 seconds and formats numbers, and
  the class \<open>CSEUI\<close>, which writes what it gets into the elements of the page.

  The browser is outside the module and enters the model as data: how a fetch settles,
  the readings of \<open>Date.now()\<close>, the built-in conversions between numbers and strings,
  the currency format, and the elements the page has. An \<open>async\<close> function is a function
  from the state in which it runs to its result and the state it leaves; a rejected
  promise is a result \<open>Inl\<close>. Strings are byte strings, UTF-8 for the one character
  outside ASCII that the module writes.
\<close>

section \<open>JavaScript values\<close>

text \<open>
  A JavaScript number is a binary64 value. The finite ones are rationals, so a finite
  number is carried as its exact rational value; the two zeros are one value \<open>Fin 0\<close>
  (both are falsy, and \<open>parseFloat\<close> of the number \<open>-0\<close> is \<open>+0\<close>).
\<close>

datatype jsnum = NaN | PosInf | NegInf | Fin rat

text \<open>
  What \<open>response.json()\<close> can deliver, and \<open>undefined\<close>, which reading a missing
  property gives. An object is the list of its own properties.
\<close>

datatype jsval =
    JUndefined
  | JNull
  | JBool bool
  | JNum jsnum
  | JStr string
  | JArr "jsval list"
  | JObj "(string \<times> jsval) list"

text \<open>\<open>ToBoolean\<close>: what \<open>if (v)\<close>, \<open>!v\<close>, \<open>a || b\<close> and \<open>a && b\<close> test.\<close>

fun truthy :: "jsval \<Rightarrow> bool" where
  "truthy JUndefined = False"
| "truthy JNull = False"
| "truthy (JBool b) = b"
| "truthy (JNum n) = (n \<noteq> NaN \<and> n \<noteq> Fin 0)"
| "truthy (JStr s) = (s \<noteq> [])"
| "truthy (JArr xs) = True"
| "truthy (JObj kvs) = True"

text \<open>The exceptions this module can meet.\<close>

datatype error =
    NetworkError \<comment> \<open>\<open>fetch\<close> rejected\<close>
  | ApiCallFailed nat \<comment> \<open>\<open>new Error(`API call failed: ${response.status}`)\<close>\<close>
  | JsonError \<comment> \<open>\<open>response.json()\<close> rejected\<close>
  | TypeError \<comment> \<open>a property read on \<open>null\<close>/\<open>undefined\<close>, or a call of a non-function\<close>

text \<open>What \<open>console.error\<close> has printed, oldest first.\<close>

datatype log_entry =
    ApiError string error \<comment> \<open>\<open>Error calling CSE API ${endpoint}:\<close> and the error\<close>
  | UiError string \<comment> \<open>\<open>CSE UI Error: ${message}\<close>\<close>
  | InitError error \<comment> \<open>\<open>Error initializing CSE data:\<close> and the error\<close>

section \<open>The network\<close>

record request =
  url :: string
  httpMethod :: string
  headers :: "(string \<times> string) list"

datatype body_result = JsonBody jsval | BadJson

text \<open>
  How one \<open>fetch\<close> settles: it rejects, or it resolves with a response that has a
  status and a body that \<open>response.json()\<close> parses or rejects.
\<close>

datatype fetch_result = Rejected | Response nat body_result

type_synonym fetcher = "request \<Rightarrow> fetch_result"

text \<open>\<open>response.ok\<close>: the status is in the range 200-299.\<close>

definition response_ok :: "nat \<Rightarrow> bool" where
  "response_ok status = (200 \<le> status \<and> status \<le> 299)"

section \<open>CSEApi: the cache and the four getters\<close>

record cache_entry =
  data :: jsval
  timestamp :: int

type_synonym cache = "string \<rightharpoonup> cache_entry"

definition baseUrl :: string where
  "baseUrl = ''https://www.cse.lk/api''"

definition cacheTimeout :: int where
  "cacheTimeout = 30000"

definition apiRequest :: "string \<Rightarrow> request" where
  "apiRequest endpoint =
     \<lparr>url = baseUrl @ endpoint, httpMethod = ''POST'',
      headers = [(''Content-Type'', ''application/json'')]\<rparr>"

text \<open>
  The \<open>try\<close> block of \<open>makeApiCall\<close>; every call in this module passes no \<open>options\<close>.
\<close>

definition makeApiCall_try :: "fetcher \<Rightarrow> string \<Rightarrow> error + jsval" where
  "makeApiCall_try fetch endpoint =
     (case fetch (apiRequest endpoint) of
        Rejected \<Rightarrow> Inl NetworkError
      | Response status body \<Rightarrow>
          if \<not> response_ok status then Inl (ApiCallFailed status)
          else (case body of BadJson \<Rightarrow> Inl JsonError | JsonBody d \<Rightarrow> Inr d))"

text \<open>
  \<open>makeApiCall\<close>: the \<open>try\<close> block, and the \<open>catch\<close> that logs and returns \<open>null\<close>.
  The result is a sum so that an exception leaving the function would be a value \<open>Inl\<close>.
\<close>

definition makeApiCall ::
  "fetcher \<Rightarrow> string \<Rightarrow> log_entry list \<Rightarrow> (error + jsval) \<times> log_entry list" where
  "makeApiCall fetch endpoint con =
     (case makeApiCall_try fetch endpoint of
        Inr d \<Rightarrow> (Inr d, con)
      | Inl e \<Rightarrow> (Inr JNull, con @ [ApiError endpoint e]))"

text \<open>\<open>getCachedData(key)\<close>, with \<open>Date.now()\<close> as \<open>now\<close>.\<close>

definition getCachedData :: "cache \<Rightarrow> int \<Rightarrow> string \<Rightarrow> jsval" where
  "getCachedData c now key =
     (case c key of
        None \<Rightarrow> JNull
      | Some cached \<Rightarrow>
          if now - timestamp cached < cacheTimeout then data cached else JNull)"

definition setCachedData :: "cache \<Rightarrow> int \<Rightarrow> string \<Rightarrow> jsval \<Rightarrow> cache" where
  "setCachedData c now key d = c(key \<mapsto> \<lparr>data = d, timestamp = now\<rparr>)"

text \<open>
  What the module reads and writes: the cache of the one \<open>CSEApi\<close> instance, the
  console, and the page (added below).
\<close>

record api_state =
  cache :: cache
  console :: "log_entry list"

text \<open>
  One call of a getter: the network as this call finds it, \<open>Date.now()\<close> when the
  cache is read and \<open>Date.now()\<close> when the payload is stored.
\<close>

record call_env =
  fetch :: fetcher
  now_check :: int
  now_store :: int

text \<open>
  The part of a getter after its \<open>await this.makeApiCall(endpoint)\<close>:
  \<open>if (data) this.setCachedData(cacheKey, data); return data\<close>.
\<close>

definition awaitApiCall ::
  "string \<Rightarrow> string \<Rightarrow> call_env \<Rightarrow> 's api_state_scheme \<Rightarrow> (error + jsval) \<times> 's api_state_scheme" where
  "awaitApiCall cacheKey endpoint env st =
     (case makeApiCall (fetch env) endpoint (console st) of
        (Inl e, con) \<Rightarrow> (Inl e, st\<lparr>console := con\<rparr>)
      | (Inr d, con) \<Rightarrow>
          (Inr d,
           if truthy d
           then st\<lparr>console := con, cache := setCachedData (cache st) (now_store env) cacheKey d\<rparr>
           else st\<lparr>console := con\<rparr>))"

text \<open>
  The body the four getters share, each with its own \<open>cacheKey\<close> and endpoint:
  \<open>const cached = this.getCachedData(cacheKey); if (cached) return cached;\<close> and then
  the part above.
\<close>

definition cachedGetter ::
  "string \<Rightarrow> string \<Rightarrow> call_env \<Rightarrow> 's api_state_scheme \<Rightarrow> (error + jsval) \<times> 's api_state_scheme" where
  "cachedGetter cacheKey endpoint env st =
     (let cached = getCachedData (cache st) (now_check env) cacheKey in
      if truthy cached then (Inr cached, st)
      else awaitApiCall cacheKey endpoint env st)"

definition getMarketSummary ::
  "call_env \<Rightarrow> 's api_state_scheme \<Rightarrow> (error + jsval) \<times> 's api_state_scheme" where
  "getMarketSummary = cachedGetter ''marketSummary'' ''/marketSummery''"

definition getTopGainers ::
  "call_env \<Rightarrow> 's api_state_scheme \<Rightarrow> (error + jsval) \<times> 's api_state_scheme" where
  "getTopGainers = cachedGetter ''topGainers'' ''/topGainers''"

definition getTopLosers ::
  "call_env \<Rightarrow> 's api_state_scheme \<Rightarrow> (error + jsval) \<times> 's api_state_scheme" where
  "getTopLosers = cachedGetter ''topLosers'' ''/topLosers''"

definition getMostActive ::
  "call_env \<Rightarrow> 's api_state_scheme \<Rightarrow> (error + jsval) \<times> 's api_state_scheme" where
  "getMostActive = cachedGetter ''mostActive'' ''/mostActive''"

text \<open>
  A run of \<open>setCachedData\<close> calls (key, payload, \<open>Date.now()\<close>), in the order made.
\<close>

definition setCachedDataAll :: "(string \<times> jsval \<times> int) list \<Rightarrow> cache \<Rightarrow> cache" where
  "setCachedDataAll calls c = fold (\<lambda>(k, d, t) c'. setCachedData c' t k d) calls c"

text \<open>The four getters, each with its cache key and its endpoint.\<close>

definition getters ::
  "((call_env \<Rightarrow> 's api_state_scheme \<Rightarrow> (error + jsval) \<times> 's api_state_scheme) \<times> string \<times> string) list" where
  "getters =
     [(getMarketSummary, ''marketSummary'', ''/marketSummery''),
      (getTopGainers, ''topGainers'', ''/topGainers''),
      (getTopLosers, ''topLosers'', ''/topLosers''),
      (getMostActive, ''mostActive'', ''/mostActive'')]"

text \<open>Concrete networks and a fresh \<open>CSEApi\<close>, for running the model.\<close>

definition failingNet :: fetcher where
  "failingNet req = Rejected"


definition bodyNet :: "jsval \<Rightarrow> fetcher" where
  "bodyNet d req = Response 200 (JsonBody d)"

definition freshApi :: api_state where
  "freshApi = \<lparr>cache = Map.empty, console = []\<rparr>"

definition callAt :: "fetcher \<Rightarrow> int \<Rightarrow> call_env" where
  "callAt net now = \<lparr>fetch = net, now_check = now, now_store = now\<rparr>"

section \<open>Numbers and their formatting\<close>

text \<open>
  What the host provides and this module does not define: \<open>Number::toString\<close> of a
  finite number, \<open>ToString\<close> of an array or object, the number \<open>parseFloat\<close> reads from
  a string, \<open>StringToNumber\<close>, \<open>String.prototype.toLowerCase\<close>, and
  \<open>Intl.NumberFormat('en-LK', {style: 'currency', currency: 'LKR',
  minimumFractionDigits: 2}).format\<close>.
\<close>

record host =
  numberToString :: "rat \<Rightarrow> string"
  objectToString :: "jsval \<Rightarrow> string"
  parseFloatString :: "string \<Rightarrow> jsnum"
  stringToNumber :: "string \<Rightarrow> jsnum"
  lowerCase :: "string \<Rightarrow> string"
  intlCurrency :: "jsval \<Rightarrow> string"

text \<open>\<open>ToString\<close>, as a template literal applies it.\<close>

fun toStringJS :: "host \<Rightarrow> jsval \<Rightarrow> string" where
  "toStringJS h JUndefined = ''undefined''"
| "toStringJS h JNull = ''null''"
| "toStringJS h (JBool b) = (if b then ''true'' else ''false'')"
| "toStringJS h (JNum NaN) = ''NaN''"
| "toStringJS h (JNum PosInf) = ''Infinity''"
| "toStringJS h (JNum NegInf) = ''-Infinity''"
| "toStringJS h (JNum (Fin x)) = numberToString h x"
| "toStringJS h (JStr s) = s"
| "toStringJS h (JArr xs) = objectToString h (JArr xs)"
| "toStringJS h (JObj kvs) = objectToString h (JObj kvs)"

text \<open>
  \<open>parseFloat(v)\<close> reads a number from \<open>ToString(v)\<close>. For a number \<open>v\<close> that is \<open>v\<close>
  itself: \<open>ToString\<close> of a number reads back as the same number.
\<close>

fun parseFloat :: "host \<Rightarrow> jsval \<Rightarrow> jsnum" where
  "parseFloat h (JNum n) = n"
| "parseFloat h v = parseFloatString h (toStringJS h v)"

text \<open>\<open>num >= c\<close> for a finite constant \<open>c\<close>: false when \<open>num\<close> is \<open>NaN\<close>.\<close>

fun js_ge :: "jsnum \<Rightarrow> rat \<Rightarrow> bool" where
  "js_ge NaN c = False"
| "js_ge PosInf c = True"
| "js_ge NegInf c = False"
| "js_ge (Fin x) c = (c \<le> x)"

text \<open>
  Rounding a rational to binary64, to nearest with ties to even: 53 significant bits,
  least exponent \<open>-1074\<close>, and a rounded value of \<open>2^1024\<close> or more is an infinity.
  \<open>floorLog2 x\<close> is the exponent \<open>e\<close> with \<open>2^e \<le> x < 2^(e+1)\<close>, for \<open>x > 0\<close>.
\<close>

definition pow2 :: "int \<Rightarrow> rat" where
  "pow2 e = (if 0 \<le> e then 2 ^ nat e else 1 / 2 ^ nat (- e))"

definition floorLog2 :: "rat \<Rightarrow> int" where
  "floorLog2 x =
     (let (p, q) = quotient_of x; e = bitlen p - bitlen q
      in if pow2 e \<le> x then e else e - 1)"

definition roundHalfEven :: "rat \<Rightarrow> int" where
  "roundHalfEven y =
     (let f = \<lfloor>y\<rfloor>; r = y - of_int f
      in if r < 1 / 2 then f else if 1 / 2 < r then f + 1 else if even f then f else f + 1)"

definition roundDouble :: "rat \<Rightarrow> jsnum" where
  "roundDouble x =
     (if x = 0 then Fin 0
      else
        let a = \<bar>x\<bar>;
            k = max (floorLog2 a - 52) (- 1074);
            r = of_int (roundHalfEven (a / pow2 k)) * pow2 k
        in if 1024 \<le> floorLog2 r then (if x < 0 then NegInf else PosInf)
           else Fin (if x < 0 then - r else r))"

text \<open>\<open>num / c\<close> for a finite constant \<open>c > 0\<close>.\<close>

fun js_div :: "jsnum \<Rightarrow> rat \<Rightarrow> jsnum" where
  "js_div NaN c = NaN"
| "js_div PosInf c = PosInf"
| "js_div NegInf c = NegInf"
| "js_div (Fin x) c = roundDouble (x / c)"

text \<open>The decimal digits of an integer \<open>n \<ge> 0\<close>.\<close>

definition digitChar :: "int \<Rightarrow> char" where
  "digitChar d = ''0123456789'' ! nat d"

function decimal :: "int \<Rightarrow> string" where
  "decimal n = (if n < 10 then [digitChar n] else decimal (n div 10) @ [digitChar (n mod 10)])"
  by pat_completeness auto
termination
  by (relation "measure nat") auto

declare decimal.simps [simp del]

text \<open>
  \<open>Number.prototype.toFixed(f)\<close> for \<open>0 \<le> x < 10^21\<close>: \<open>n\<close> is the integer nearest to
  \<open>x * 10^f\<close>, the larger one of two; its digits are padded with zeros to \<open>f + 1\<close>
  places and the point goes before the last \<open>f\<close>.
\<close>

definition fixedDigits :: "rat \<Rightarrow> nat \<Rightarrow> string" where
  "fixedDigits x f =
     (let n = \<lfloor>x * 10 ^ f + 1 / 2\<rfloor>;
          m = decimal n;
          m = (if length m \<le> f then replicate (f + 1 - length m) CHR ''0'' @ m else m);
          k = length m
      in if f = 0 then m else take (k - f) m @ ''.'' @ drop (k - f) m)"

fun toFixed :: "host \<Rightarrow> jsnum \<Rightarrow> nat \<Rightarrow> string" where
  "toFixed h NaN f = ''NaN''"
| "toFixed h PosInf f = ''Infinity''"
| "toFixed h NegInf f = ''-Infinity''"
| "toFixed h (Fin x) f =
     (let s = (if x < 0 then ''-'' else '''');
          a = \<bar>x\<bar>
      in if 10 ^ 21 \<le> a then s @ numberToString h a else s @ fixedDigits a f)"

text \<open>The object \<open>formatPercentageChange\<close> returns: \<open>{value, isPositive, color}\<close>.\<close>

record formatted_change =
  value' :: string
  isPositive :: bool
  color :: string

definition formatPercentageChange :: "host \<Rightarrow> jsval \<Rightarrow> formatted_change" where
  "formatPercentageChange h change =
     (let num = parseFloat h change;
          formatted = toFixed h num 2
      in \<lparr>value' = formatted,
          isPositive = js_ge num 0,
          color = (if js_ge num 0 then ''positive'' else ''negative'')\<rparr>)"

definition formatCurrency :: "host \<Rightarrow> jsval \<Rightarrow> string" where
  "formatCurrency h v = intlCurrency h v"

definition formatLargeNumber :: "host \<Rightarrow> jsval \<Rightarrow> string" where
  "formatLargeNumber h v =
     (let num = parseFloat h v
      in if js_ge num (10 ^ 9) then toFixed h (js_div num (10 ^ 9)) 2 @ ''B''
         else if js_ge num (10 ^ 6) then toFixed h (js_div num (10 ^ 6)) 2 @ ''M''
         else if js_ge num (10 ^ 3) then toFixed h (js_div num (10 ^ 3)) 2 @ ''K''
         else toFixed h num 2)"

text \<open>
  \<open>formatLargeNumber\<close> as the specification words it: the threshold is chosen by the
  absolute value of the number.
\<close>

fun js_abs :: "jsnum \<Rightarrow> jsnum" where
  "js_abs NaN = NaN"
| "js_abs PosInf = PosInf"
| "js_abs NegInf = PosInf"
| "js_abs (Fin x) = Fin \<bar>x\<bar>"

definition formatLargeNumber_spec :: "host \<Rightarrow> jsval \<Rightarrow> string" where
  "formatLargeNumber_spec h v =
     (let num = parseFloat h v
      in if js_ge (js_abs num) (10 ^ 9) then toFixed h (js_div num (10 ^ 9)) 2 @ ''B''
         else if js_ge (js_abs num) (10 ^ 6) then toFixed h (js_div num (10 ^ 6)) 2 @ ''M''
         else if js_ge (js_abs num) (10 ^ 3) then toFixed h (js_div num (10 ^ 3)) 2 @ ''K''
         else toFixed h num 2)"

text \<open>The scaled number and the suffix \<open>formatLargeNumber\<close> chooses for a finite \<open>x\<close>.\<close>

definition scaledNumber :: "rat \<Rightarrow> jsnum" where
  "scaledNumber x =
     (if 10 ^ 9 \<le> x then js_div (Fin x) (10 ^ 9)
      else if 10 ^ 6 \<le> x then js_div (Fin x) (10 ^ 6)
      else if 10 ^ 3 \<le> x then js_div (Fin x) (10 ^ 3)
      else Fin x)"

definition scaleSuffix :: "rat \<Rightarrow> string" where
  "scaleSuffix x =
     (if 10 ^ 9 \<le> x then ''B'' else if 10 ^ 6 \<le> x then ''M''
      else if 10 ^ 3 \<le> x then ''K'' else '''')"

definition isDigit :: "char \<Rightarrow> bool" where
  "isDigit ch = (ch \<in> set ''0123456789'')"

text \<open>
  A host for running the model. Its currency format, \<open>LKR\<close> and the amount with two
  fraction digits, stands for the browser's, which depends on its locale data; its
  \<open>parseFloat\<close> and \<open>StringToNumber\<close> of a string and its \<open>ToString\<close> of an object are
  placeholders. Its \<open>toLowerCase\<close> maps the letters \<open>A\<close>-\<open>Z\<close>, which is what the
  browser does to a string of ASCII characters.
\<close>

definition lowerChar :: "char \<Rightarrow> char" where
  "lowerChar ch =
     (let n = (of_char ch :: nat) in if 65 \<le> n \<and> n \<le> 90 then char_of (n + 32) else ch)"

definition testHost :: host where
  "testHost =
     \<lparr>numberToString = (\<lambda>x. (if x < 0 then ''-'' else []) @ fixedDigits \<bar>x\<bar> 0),
      objectToString = (\<lambda>v. ''[object Object]''),
      parseFloatString = (\<lambda>s. NaN),
      stringToNumber = (\<lambda>s. NaN),
      lowerCase = map lowerChar,
      intlCurrency =
        (\<lambda>v. case v of
           JNum (Fin x) \<Rightarrow> ''LKR '' @ (if x < 0 then ''-'' else []) @ fixedDigits \<bar>x\<bar> 2
         | _ \<Rightarrow> ''LKR NaN'')\<rparr>"

section \<open>Reading JavaScript values\<close>

text \<open>
  \<open>v.key\<close> for a \<open>v\<close> that is neither \<open>null\<close> nor \<open>undefined\<close>, for the property names
  this module reads (\<open>length\<close> and the fields of the API's objects): an object gives its
  own property, an array or string its \<open>length\<close>, and everything else \<open>undefined\<close>.
  The length of a string is only ever tested against zero.
\<close>

fun getProp :: "jsval \<Rightarrow> string \<Rightarrow> jsval" where
  "getProp (JObj kvs) key = (case map_of kvs key of None \<Rightarrow> JUndefined | Some v \<Rightarrow> v)"
| "getProp (JArr xs) key = (if key = ''length'' then JNum (Fin (of_nat (length xs))) else JUndefined)"
| "getProp (JStr s) key = (if key = ''length'' then JNum (Fin (of_nat (length s))) else JUndefined)"
| "getProp v key = JUndefined"

text \<open>Reading a property of \<open>null\<close> or \<open>undefined\<close> throws a \<open>TypeError\<close>.\<close>

fun nullish :: "jsval \<Rightarrow> bool" where
  "nullish JUndefined = True"
| "nullish JNull = True"
| "nullish v = False"

text \<open>\<open>a || b\<close>.\<close>

definition js_or :: "jsval \<Rightarrow> jsval \<Rightarrow> jsval" where
  "js_or a b = (if truthy a then a else b)"

text \<open>\<open>ToNumber(v)\<close>; an array or object goes through its string.\<close>

fun toNumber :: "host \<Rightarrow> jsval \<Rightarrow> jsnum" where
  "toNumber h (JNum n) = n"
| "toNumber h JUndefined = NaN"
| "toNumber h JNull = Fin 0"
| "toNumber h (JBool b) = Fin (if b then 1 else 0)"
| "toNumber h v = stringToNumber h (toStringJS h v)"

text \<open>\<open>num > c\<close> for a finite constant \<open>c\<close>.\<close>

fun js_gt :: "jsnum \<Rightarrow> rat \<Rightarrow> bool" where
  "js_gt NaN c = False"
| "js_gt PosInf c = True"
| "js_gt NegInf c = False"
| "js_gt (Fin x) c = (c < x)"

text \<open>
  The method calls. \<open>v.slice(0, n)\<close>: arrays and strings have \<open>slice\<close>; on anything
  else \<open>v.slice\<close> is not a function and the call throws. \<open>v.toFixed(f)\<close>: only numbers
  have it. No value of a JSON payload is a function.
\<close>

fun callSlice :: "jsval \<Rightarrow> nat \<Rightarrow> error + jsval" where
  "callSlice (JArr xs) n = Inr (JArr (take n xs))"
| "callSlice (JStr s) n = Inr (JStr (take n s))"
| "callSlice v n = Inl TypeError"

fun callToFixed :: "host \<Rightarrow> jsval \<Rightarrow> nat \<Rightarrow> error + string" where
  "callToFixed h (JNum n) f = Inr (toFixed h n f)"
| "callToFixed h v f = Inl TypeError"

text \<open>\<open>title.toLowerCase()\<close>, which the host provides.\<close>

definition toLowerCase :: "host \<Rightarrow> string \<Rightarrow> string" where
  "toLowerCase h s = lowerCase h s"

text \<open>\<open>items.join(sep)\<close>.\<close>

fun join :: "string list \<Rightarrow> string \<Rightarrow> string" where
  "join [] sep = []"
| "join [x] sep = x"
| "join (x # y # ys) sep = x @ sep @ join (y # ys) sep"

section \<open>The page\<close>

text \<open>
  The placeholder elements, by id. Each holds what was last assigned to its
  \<open>innerHTML\<close> or \<open>textContent\<close>, and its \<open>className\<close>. The placeholders are taken to be
  separate elements, none inside another.
\<close>

datatype content = InnerHTML string | TextContent string

record element =
  body :: content
  className :: string

type_synonym dom = "string \<rightharpoonup> element"

record ui_state = api_state +
  dom :: dom

text \<open>An assignment through an element that \<open>getElementById\<close> found.\<close>

definition setInnerHTML :: "string \<Rightarrow> string \<Rightarrow> ui_state \<Rightarrow> ui_state" where
  "setInnerHTML elementId html st =
     (case dom st elementId of
        None \<Rightarrow> st
      | Some el \<Rightarrow> st\<lparr>dom := (dom st)(elementId \<mapsto> el\<lparr>body := InnerHTML html\<rparr>)\<rparr>)"

definition setTextContent :: "string \<Rightarrow> string \<Rightarrow> ui_state \<Rightarrow> ui_state" where
  "setTextContent elementId txt st =
     (case dom st elementId of
        None \<Rightarrow> st
      | Some el \<Rightarrow> st\<lparr>dom := (dom st)(elementId \<mapsto> el\<lparr>body := TextContent txt\<rparr>)\<rparr>)"

definition setClassName :: "string \<Rightarrow> string \<Rightarrow> ui_state \<Rightarrow> ui_state" where
  "setClassName elementId cls st =
     (case dom st elementId of
        None \<Rightarrow> st
      | Some el \<Rightarrow> st\<lparr>dom := (dom st)(elementId \<mapsto> el\<lparr>className := cls\<rparr>)\<rparr>)"

section \<open>CSEUI\<close>

definition errorFragment :: "string \<Rightarrow> string" where
  "errorFragment message = ''<div class=\"text-center text-danger\">'' @ message @ ''</div>''"

definition showError :: "string \<Rightarrow> string \<Rightarrow> ui_state \<Rightarrow> ui_state" where
  "showError elementId message st =
     (let st' = (if dom st elementId \<noteq> None
                 then setInnerHTML elementId (errorFragment message) st else st)
      in st'\<lparr>console := console st' @ [UiError message]\<rparr>)"

subsection \<open>createStocksTable\<close>

definition noDataNotice :: "host \<Rightarrow> string \<Rightarrow> string" where
  "noDataNotice h title =
     ''<div class=\"text-center text-muted\">No '' @ toLowerCase h title @
     '' data available</div>''"

definition tableHead :: "string \<Rightarrow> string" where
  "tableHead title =
     ''\<newline>      <div class=\"card-custom\">'' @
     ''\<newline>        <div class=\"card-header-custom\">'' @
     ''\<newline>          <h5 class=\"mb-0\">Top '' @ title @ ''</h5>'' @
     ''\<newline>        </div>'' @
     ''\<newline>        <div class=\"card-body p-0\">'' @
     ''\<newline>          <div class=\"table-responsive\">'' @
     ''\<newline>            <table class=\"table table-hover mb-0\">'' @
     ''\<newline>              <thead>'' @
     ''\<newline>                <tr>'' @
     ''\<newline>                  <th>Symbol</th>'' @
     ''\<newline>                  <th>Price</th>'' @
     ''\<newline>                  <th>Change</th>'' @
     ''\<newline>                  <th>% Change</th>'' @
     ''\<newline>                </tr>'' @
     ''\<newline>              </thead>'' @
     ''\<newline>              <tbody>'' @
     ''\<newline>    ''"

definition tableFoot :: string where
  "tableFoot =
     ''\<newline>              </tbody>'' @
     ''\<newline>            </table>'' @
     ''\<newline>          </div>'' @
     ''\<newline>        </div>'' @
     ''\<newline>      </div>'' @
     ''\<newline>    ''"

text \<open>The body of the \<open>forEach\<close> callback: the markup of one row, added to \<open>html\<close>.\<close>

definition tableRow :: "host \<Rightarrow> jsval \<Rightarrow> error + string" where
  "tableRow h stock =
     (if nullish stock then Inl TypeError
      else
        let change = formatPercentageChange h
              (js_or (js_or (getProp stock ''change'') (getProp stock ''percentageChange''))
                 (JNum (Fin 0)))
        in Inr
          (''\<newline>        <tr>'' @
           ''\<newline>          <td><strong>'' @
             toStringJS h (js_or (js_or (getProp stock ''symbol'') (getProp stock ''name''))
                (JStr ''N/A'')) @ ''</strong></td>'' @
           ''\<newline>          <td>'' @
             formatCurrency h (js_or (js_or (getProp stock ''price'') (getProp stock ''lastPrice''))
                (JNum (Fin 0))) @ ''</td>'' @
           ''\<newline>          <td class=\"'' @ color change @ ''\">'' @
             formatCurrency h (js_or (getProp stock ''change'') (JNum (Fin 0))) @ ''</td>'' @
           ''\<newline>          <td class=\"'' @ color change @ ''\">'' @ value' change @ ''%</td>'' @
           ''\<newline>        </tr>'' @
           ''\<newline>      ''))"

text \<open>\<open>stocks.forEach(stock => { html += row })\<close> over the elements of an array.\<close>

fun tableRows :: "host \<Rightarrow> jsval list \<Rightarrow> string \<Rightarrow> error + string" where
  "tableRows h [] html = Inr html"
| "tableRows h (stock # rest) html =
     (case tableRow h stock of
        Inl e \<Rightarrow> Inl e
      | Inr row \<Rightarrow> tableRows h rest (html @ row))"

text \<open>
  \<open>stocks.length === 0\<close> holds when the length is the number zero; \<open>stocks.forEach\<close>
  is a function only when \<open>stocks\<close> is an array.
\<close>

definition createStocksTable :: "host \<Rightarrow> jsval \<Rightarrow> string \<Rightarrow> error + string" where
  "createStocksTable h stocks title =
     (if \<not> truthy stocks \<or> getProp stocks ''length'' = JNum (Fin 0)
      then Inr (noDataNotice h title)
      else
        (case stocks of
           JArr rows \<Rightarrow>
             (case tableRows h rows (tableHead title) of
                Inl e \<Rightarrow> Inl e
              | Inr html \<Rightarrow> Inr (html @ tableFoot))
         | _ \<Rightarrow> Inl TypeError))"

subsection \<open>The update operations\<close>

text \<open>
  An update operation awaits a getter and then works on the page. \<open>thenDo\<close> runs the
  part after the \<open>await\<close> on what the getter returned; an exception would pass through.
\<close>

definition thenDo ::
  "(error + 'a) \<times> 's \<Rightarrow> ('a \<Rightarrow> 's \<Rightarrow> (error + 'b) \<times> 's) \<Rightarrow> (error + 'b) \<times> 's" where
  "thenDo r k = (case r of (Inl e, st) \<Rightarrow> (Inl e, st) | (Inr v, st) \<Rightarrow> k v st)"

text \<open>
  \<open>updateTopGainers\<close>, \<open>updateTopLosers\<close> and \<open>updateMostActive\<close> after their \<open>await\<close>;
  the three differ in the ids, the message and the title.
\<close>

definition showTable ::
  "host \<Rightarrow> string \<Rightarrow> string \<Rightarrow> string \<Rightarrow> string \<Rightarrow> jsval \<Rightarrow> ui_state \<Rightarrow> (error + unit) \<times> ui_state" where
  "showTable h errorId message containerId title d st =
     (if \<not> truthy d then (Inr (), showError errorId message st)
      else if dom st containerId = None then (Inr (), st)
      else
        (case callSlice d 5 of
           Inl e \<Rightarrow> (Inl e, st)
         | Inr rows \<Rightarrow>
             (case createStocksTable h rows title of
                Inl e \<Rightarrow> (Inl e, st)
              | Inr html \<Rightarrow> (Inr (), setInnerHTML containerId html st))))"

definition updateTopGainers_resume :: "host \<Rightarrow> jsval \<Rightarrow> ui_state \<Rightarrow> (error + unit) \<times> ui_state" where
  "updateTopGainers_resume h =
     showTable h ''gainers'' ''Unable to fetch top gainers data'' ''top-gainers'' ''Gainers''"

definition updateTopLosers_resume :: "host \<Rightarrow> jsval \<Rightarrow> ui_state \<Rightarrow> (error + unit) \<times> ui_state" where
  "updateTopLosers_resume h =
     showTable h ''losers'' ''Unable to fetch top losers data'' ''top-losers'' ''Losers''"

definition updateMostActive_resume :: "host \<Rightarrow> jsval \<Rightarrow> ui_state \<Rightarrow> (error + unit) \<times> ui_state" where
  "updateMostActive_resume h =
     showTable h ''active'' ''Unable to fetch most active data'' ''most-active'' ''Most Active''"

definition updateTopGainers :: "host \<Rightarrow> call_env \<Rightarrow> ui_state \<Rightarrow> (error + unit) \<times> ui_state" where
  "updateTopGainers h env st = thenDo (getTopGainers env st) (updateTopGainers_resume h)"

definition updateTopLosers :: "host \<Rightarrow> call_env \<Rightarrow> ui_state \<Rightarrow> (error + unit) \<times> ui_state" where
  "updateTopLosers h env st = thenDo (getTopLosers env st) (updateTopLosers_resume h)"

definition updateMostActive :: "host \<Rightarrow> call_env \<Rightarrow> ui_state \<Rightarrow> (error + unit) \<times> ui_state" where
  "updateMostActive h env st = thenDo (getMostActive env st) (updateMostActive_resume h)"

text \<open>
  The block \<open>if (changeElement && data.ASPIChange) { ... }\<close>, which \<open>updateASPI\<close> and
  \<open>updateMarketSummary\<close> both have, each for its own element.
\<close>

definition showChange :: "host \<Rightarrow> string \<Rightarrow> jsval \<Rightarrow> ui_state \<Rightarrow> ui_state" where
  "showChange h elementId d st =
     (if dom st elementId \<noteq> None \<and> truthy (getProp d ''ASPIChange'')
      then
        let change = formatPercentageChange h (getProp d ''ASPIChange'')
        in setClassName elementId (''cse-change '' @ color change)
             (setTextContent elementId (value' change @ ''%'') st)
      else st)"

definition updateASPI_resume :: "host \<Rightarrow> jsval \<Rightarrow> ui_state \<Rightarrow> (error + unit) \<times> ui_state" where
  "updateASPI_resume h d st =
     (if \<not> truthy d then (Inr (), showError ''ASPI'' ''Unable to fetch ASPI data'' st)
      else if dom st ''aspi-index'' \<noteq> None \<and> truthy (getProp d ''ASPI'')
      then
        (case callToFixed h (getProp d ''ASPI'') 2 of
           Inl e \<Rightarrow> (Inl e, st)
         | Inr txt \<Rightarrow> (Inr (), showChange h ''aspi-change'' d (setTextContent ''aspi-index'' txt st)))
      else (Inr (), showChange h ''aspi-change'' d st))"

definition updateASPI :: "host \<Rightarrow> call_env \<Rightarrow> ui_state \<Rightarrow> (error + unit) \<times> ui_state" where
  "updateASPI h env st = thenDo (getMarketSummary env st) (updateASPI_resume h)"

text \<open>The turnover and market-cap blocks of \<open>updateMarketSummary\<close>.\<close>

definition showLargeNumber :: "host \<Rightarrow> string \<Rightarrow> string \<Rightarrow> jsval \<Rightarrow> ui_state \<Rightarrow> ui_state" where
  "showLargeNumber h elementId field d st =
     (if dom st elementId \<noteq> None \<and> truthy (getProp d field)
      then setTextContent elementId (formatLargeNumber h (getProp d field)) st
      else st)"

definition summaryRest :: "host \<Rightarrow> jsval \<Rightarrow> ui_state \<Rightarrow> ui_state" where
  "summaryRest h d st =
     showChange h ''market-change'' d
       (showLargeNumber h ''market-cap'' ''marketCap'' d
          (showLargeNumber h ''market-turnover'' ''turnover'' d st))"

definition updateMarketSummary_resume :: "host \<Rightarrow> jsval \<Rightarrow> ui_state \<Rightarrow> (error + unit) \<times> ui_state" where
  "updateMarketSummary_resume h d st =
     (if \<not> truthy d then (Inr (), showError ''summary'' ''Unable to fetch market summary'' st)
      else if dom st ''market-aspi'' = None then (Inr (), summaryRest h d st)
      else if truthy (getProp d ''ASPI'')
      then
        (case callToFixed h (getProp d ''ASPI'') 2 of
           Inl e \<Rightarrow> (Inl e, st)
         | Inr txt \<Rightarrow> (Inr (), summaryRest h d (setTextContent ''market-aspi'' txt st)))
      else (Inr (), summaryRest h d (setTextContent ''market-aspi'' ''N/A'' st)))"

definition updateMarketSummary :: "host \<Rightarrow> call_env \<Rightarrow> ui_state \<Rightarrow> (error + unit) \<times> ui_state" where
  "updateMarketSummary h env st = thenDo (getMarketSummary env st) (updateMarketSummary_resume h)"

subsection \<open>The ticker\<close>

text \<open>The bullet U+2022, as its three UTF-8 bytes.\<close>

definition bullet :: string where
  "bullet = [char_of (226 :: nat), char_of (128 :: nat), char_of (162 :: nat)]"

definition tickerSeparator :: string where
  "tickerSeparator = '' '' @ bullet @ '' ''"

definition tickerPlaceholder :: string where
  "tickerPlaceholder =
     ''CSE Market Data '' @ bullet @ '' Live Updates '' @ bullet @ '' Real-time Trading''"

text \<open>
  The two \<open>forEach\<close> callbacks of \<open>createTickerContent\<close>. \<open>tickerText\<close> is the template
  literal they push; they differ in the sign before the percentage, \<open>+\<close> for a gainer
  and none for a loser. Reading a property of a \<open>null\<close> entry throws.
\<close>

definition tickerText :: "host \<Rightarrow> string \<Rightarrow> jsval \<Rightarrow> string" where
  "tickerText h sign stock =
     (let change = formatPercentageChange h
            (js_or (js_or (getProp stock ''change'') (getProp stock ''percentageChange''))
               (JNum (Fin 0)))
      in toStringJS h (js_or (getProp stock ''symbol'') (getProp stock ''name'')) @ '': '' @
         formatCurrency h (js_or (js_or (getProp stock ''price'') (getProp stock ''lastPrice''))
            (JNum (Fin 0))) @
         '' ('' @ sign @ value' change @ ''%)'')"

definition tickerItem :: "host \<Rightarrow> string \<Rightarrow> jsval \<Rightarrow> error + string" where
  "tickerItem h sign stock =
     (if nullish stock then Inl TypeError else Inr (tickerText h sign stock))"

fun pushItems :: "host \<Rightarrow> string \<Rightarrow> jsval list \<Rightarrow> string list \<Rightarrow> error + string list" where
  "pushItems h sign [] tickerItems = Inr tickerItems"
| "pushItems h sign (stock # rest) tickerItems =
     (case tickerItem h sign stock of
        Inl e \<Rightarrow> Inl e
      | Inr item \<Rightarrow> pushItems h sign rest (tickerItems @ [item]))"

text \<open>
  \<open>if (xs && xs.length > 0) { xs.slice(0, 3).forEach(...) }\<close>; what \<open>slice\<close> gives for a
  string has no \<open>forEach\<close>.
\<close>

definition pushFirstThree :: "host \<Rightarrow> string \<Rightarrow> jsval \<Rightarrow> string list \<Rightarrow> error + string list" where
  "pushFirstThree h sign xs tickerItems =
     (if truthy xs \<and> js_gt (toNumber h (getProp xs ''length'')) 0
      then
        (case callSlice xs 3 of
           Inl e \<Rightarrow> Inl e
         | Inr (JArr rows) \<Rightarrow> pushItems h sign rows tickerItems
         | Inr v \<Rightarrow> Inl TypeError)
      else Inr tickerItems)"

text \<open>\<open>createTickerContent\<close> after its \<open>await Promise.all([...])\<close>.\<close>

definition createTickerContent_resume :: "host \<Rightarrow> jsval \<Rightarrow> jsval \<Rightarrow> error + string" where
  "createTickerContent_resume h gainers losers =
     (case pushFirstThree h ''+'' gainers [] of
        Inl e \<Rightarrow> Inl e
      | Inr tickerItems \<Rightarrow>
          (case pushFirstThree h [] losers tickerItems of
             Inl e \<Rightarrow> Inl e
           | Inr tickerItems' \<Rightarrow> Inr (join tickerItems' tickerSeparator)))"

text \<open>
  \<open>createTickerContent\<close>: both getters start before either is awaited; they use
  different cache keys, so running one after the other gives the same cache.
\<close>

definition createTickerContent ::
  "host \<Rightarrow> call_env \<Rightarrow> call_env \<Rightarrow> ui_state \<Rightarrow> (error + string) \<times> ui_state" where
  "createTickerContent h envG envL st =
     thenDo (getTopGainers envG st) (\<lambda>gainers st1.
       thenDo (getTopLosers envL st1) (\<lambda>losers st2.
         (createTickerContent_resume h gainers losers, st2)))"

text \<open>\<open>updateTicker\<close> after its \<open>await this.createTickerContent()\<close>.\<close>

definition updateTicker_resume :: "string \<Rightarrow> ui_state \<Rightarrow> (error + unit) \<times> ui_state" where
  "updateTicker_resume content st =
     (if content \<noteq> [] then (Inr (), setTextContent ''ticker-content'' content st)
      else (Inr (), setTextContent ''ticker-content'' tickerPlaceholder st))"

definition updateTicker ::
  "host \<Rightarrow> call_env \<Rightarrow> call_env \<Rightarrow> ui_state \<Rightarrow> (error + unit) \<times> ui_state" where
  "updateTicker h envG envL st =
     (if dom st ''ticker-content'' = None then (Inr (), st)
      else thenDo (createTickerContent h envG envL st) updateTicker_resume)"

text \<open>Sample payloads and a sample page, for running the model.\<close>

definition sampleGainers :: "jsval list" where
  "sampleGainers =
     [JObj [(''symbol'', JStr ''AAA''), (''price'', JNum (Fin 10)), (''change'', JNum (Fin (3 / 2)))],
      JObj [(''name'', JStr ''BBB''), (''lastPrice'', JNum (Fin 20)),
            (''percentageChange'', JNum (Fin 1))],
      JObj [(''symbol'', JStr ''CCC'')],
      JObj [(''symbol'', JStr ''DDD'')]]"

definition sampleLosers :: "jsval list" where
  "sampleLosers =
     [JObj [(''symbol'', JStr ''ZZZ''), (''price'', JNum (Fin 5)), (''change'', JNum (Fin (- 5 / 2)))]]"

definition sampleSummary :: jsval where
  "sampleSummary =
     JObj [(''ASPI'', JNum (Fin 0)), (''ASPIChange'', JNum (Fin 0)),
           (''turnover'', JNum (Fin 0)), (''marketCap'', JNum (Fin 2500000))]"

definition blank :: element where
  "blank = \<lparr>body = TextContent ''--'', className = []\<rparr>"

definition samplePage :: ui_state where
  "samplePage =
     \<lparr>cache = Map.empty, console = [],
      dom = map_of
        [(''aspi-index'', blank), (''aspi-change'', blank),
         (''gainers'', blank), (''top-gainers'', blank),
         (''top-losers'', blank), (''most-active'', blank),
         (''market-aspi'', blank), (''market-turnover'', blank),
         (''market-cap'', blank), (''market-change'', blank),
         (''ticker-content'', blank)]\<rparr>"

text \<open>A field of the summary that is the number zero, or is not there.\<close>

definition zeroOrMissing :: "jsval \<Rightarrow> bool" where
  "zeroOrMissing v = (v = JNum (Fin 0) \<or> v = JUndefined)"



subsection \<open>initialize\<close>

text \<open>
  \<open>initialize\<close> starts the six update operations one after the other, and each runs up
  to its first \<open>await\<close> of a fetch before the next one starts. So every getter call of a
  pass reads the cache as it is when the pass begins, and \<open>updateTicker\<close> looks for its
  element then. An update goes on when what it awaits has settled; \<open>order\<close> is the order
  in which the updates go on, which the network decides. An update whose fetch never
  settles is not in \<open>order\<close>.
\<close>

datatype region =
    RegionASPI | RegionGainers | RegionLosers | RegionActive | RegionSummary | RegionTicker

text \<open>The getter calls of one pass: one for each update, two for the ticker.\<close>

record pass_env =
  aspi_call :: call_env
  gainers_call :: call_env
  losers_call :: call_env
  active_call :: call_env
  summary_call :: call_env
  ticker_gainers_call :: call_env
  ticker_losers_call :: call_env

text \<open>
  What \<open>makeApiCall\<close> returns: the parsed body, or \<open>null\<close> after a failure.
\<close>

definition fetchedData :: "fetcher \<Rightarrow> string \<Rightarrow> jsval" where
  "fetchedData f endpoint = (case makeApiCall_try f endpoint of Inr d \<Rightarrow> d | Inl e \<Rightarrow> JNull)"

text \<open>
  A getter whose cache read was made against the cache \<open>c0\<close> of the start of the pass,
  going on in the state \<open>st\<close> of the moment its fetch has settled.
\<close>

definition resumeGetter ::
  "string \<Rightarrow> string \<Rightarrow> call_env \<Rightarrow> cache \<Rightarrow> ui_state \<Rightarrow> (error + jsval) \<times> ui_state" where
  "resumeGetter cacheKey endpoint env c0 st =
     (let cached = getCachedData c0 (now_check env) cacheKey in
      if truthy cached then (Inr cached, st)
      else awaitApiCall cacheKey endpoint env st)"

definition resumeUpdate ::
  "host \<Rightarrow> pass_env \<Rightarrow> ui_state \<Rightarrow> region \<Rightarrow> ui_state \<Rightarrow> (error + unit) \<times> ui_state" where
  "resumeUpdate h env st0 r st =
     (case r of
        RegionASPI \<Rightarrow>
          thenDo (resumeGetter ''marketSummary'' ''/marketSummery'' (aspi_call env) (cache st0) st)
            (updateASPI_resume h)
      | RegionGainers \<Rightarrow>
          thenDo (resumeGetter ''topGainers'' ''/topGainers'' (gainers_call env) (cache st0) st)
            (updateTopGainers_resume h)
      | RegionLosers \<Rightarrow>
          thenDo (resumeGetter ''topLosers'' ''/topLosers'' (losers_call env) (cache st0) st)
            (updateTopLosers_resume h)
      | RegionActive \<Rightarrow>
          thenDo (resumeGetter ''mostActive'' ''/mostActive'' (active_call env) (cache st0) st)
            (updateMostActive_resume h)
      | RegionSummary \<Rightarrow>
          thenDo (resumeGetter ''marketSummary'' ''/marketSummery'' (summary_call env) (cache st0) st)
            (updateMarketSummary_resume h)
      | RegionTicker \<Rightarrow>
          if dom st0 ''ticker-content'' = None then (Inr (), st)
          else
            thenDo
              (thenDo
                 (resumeGetter ''topGainers'' ''/topGainers'' (ticker_gainers_call env) (cache st0) st)
                 (\<lambda>gainers st1.
                    thenDo
                      (resumeGetter ''topLosers'' ''/topLosers'' (ticker_losers_call env)
                         (cache st0) st1)
                      (\<lambda>losers st2. (createTickerContent_resume h gainers losers, st2))))
              updateTicker_resume)"

text \<open>
  One update goes on and ends. The first one that throws rejects the \<open>Promise.all\<close>, and
  the \<open>catch\<close> of \<open>initialize\<close> logs that error; the other updates go on all the same.
\<close>

definition settle ::
  "host \<Rightarrow> pass_env \<Rightarrow> ui_state \<Rightarrow> region \<Rightarrow> ui_state \<times> bool \<Rightarrow> ui_state \<times> bool" where
  "settle h env st0 r acc =
     (case acc of (st, rejected) \<Rightarrow>
        (case resumeUpdate h env st0 r st of
           (Inr u, st') \<Rightarrow> (st', rejected)
         | (Inl e, st') \<Rightarrow>
             (if rejected then st' else st'\<lparr>console := console st' @ [InitError e]\<rparr>, True)))"

definition initialize :: "host \<Rightarrow> pass_env \<Rightarrow> region list \<Rightarrow> ui_state \<Rightarrow> ui_state" where
  "initialize h env order st0 = fst (fold (settle h env st0) order (st0, False))"

text \<open>One update operation run by itself, with its own calls of the pass.\<close>

definition updateRegion ::
  "host \<Rightarrow> pass_env \<Rightarrow> region \<Rightarrow> ui_state \<Rightarrow> (error + unit) \<times> ui_state" where
  "updateRegion h env r st =
     (case r of
        RegionASPI \<Rightarrow> updateASPI h (aspi_call env) st
      | RegionGainers \<Rightarrow> updateTopGainers h (gainers_call env) st
      | RegionLosers \<Rightarrow> updateTopLosers h (losers_call env) st
      | RegionActive \<Rightarrow> updateMostActive h (active_call env) st
      | RegionSummary \<Rightarrow> updateMarketSummary h (summary_call env) st
      | RegionTicker \<Rightarrow> updateTicker h (ticker_gainers_call env) (ticker_losers_call env) st)"

text \<open>The element ids each update operation assigns to, and the calls it makes.\<close>

fun ownIds :: "region \<Rightarrow> string list" where
  "ownIds RegionASPI = [''ASPI'', ''aspi-index'', ''aspi-change'']"
| "ownIds RegionGainers = [''gainers'', ''top-gainers'']"
| "ownIds RegionLosers = [''losers'', ''top-losers'']"
| "ownIds RegionActive = [''active'', ''most-active'']"
| "ownIds RegionSummary =
     [''summary'', ''market-aspi'', ''market-turnover'', ''market-cap'', ''market-change'']"
| "ownIds RegionTicker = [''ticker-content'']"

fun callsOf :: "pass_env \<Rightarrow> region \<Rightarrow> call_env list" where
  "callsOf env RegionASPI = [aspi_call env]"
| "callsOf env RegionGainers = [gainers_call env]"
| "callsOf env RegionLosers = [losers_call env]"
| "callsOf env RegionActive = [active_call env]"
| "callsOf env RegionSummary = [summary_call env]"
| "callsOf env RegionTicker = [ticker_gainers_call env, ticker_losers_call env]"

text \<open>
  A network that answers each endpoint with a sample payload, the same network with
  \<open>/topGainers\<close> down, and a pass in which every call finds the same network.
\<close>

definition sampleNet :: fetcher where
  "sampleNet req =
     (if url req = baseUrl @ ''/topGainers'' then Response 200 (JsonBody (JArr sampleGainers))
      else if url req = baseUrl @ ''/topLosers'' then Response 200 (JsonBody (JArr sampleLosers))
      else if url req = baseUrl @ ''/mostActive'' then Response 200 (JsonBody (JArr []))
      else if url req = baseUrl @ ''/marketSummery'' then Response 200 (JsonBody sampleSummary)
      else Response 404 BadJson)"

definition gainersDownNet :: fetcher where
  "gainersDownNet req =
     (if url req = baseUrl @ ''/topGainers'' then Rejected else sampleNet req)"

definition passOn :: "fetcher \<Rightarrow> int \<Rightarrow> pass_env" where
  "passOn net now =
     \<lparr>aspi_call = callAt net now, gainers_call = callAt net now, losers_call = callAt net now,
      active_call = callAt net now, summary_call = callAt net now,
      ticker_gainers_call = callAt net now, ticker_losers_call = callAt net now\<rparr>"

definition sourceOrder :: "region list" where
  "sourceOrder =
     [RegionASPI, RegionGainers, RegionLosers, RegionActive, RegionSummary, RegionTicker]"

text \<open>
  The data a getter call of the pass comes back with, and what an update does to the
  page once it has its data.
\<close>

definition gotData :: "string \<Rightarrow> string \<Rightarrow> call_env \<Rightarrow> cache \<Rightarrow> jsval" where
  "gotData key endpoint env c0 =
     (let cached = getCachedData c0 (now_check env) key in
      if truthy cached then cached else fetchedData (fetch env) endpoint)"

definition renderRegion ::
  "host \<Rightarrow> pass_env \<Rightarrow> ui_state \<Rightarrow> region \<Rightarrow> ui_state \<Rightarrow> (error + unit) \<times> ui_state" where
  "renderRegion h env st0 r st =
     (case r of
        RegionASPI \<Rightarrow>
          updateASPI_resume h
            (gotData ''marketSummary'' ''/marketSummery'' (aspi_call env) (cache st0)) st
      | RegionGainers \<Rightarrow>
          updateTopGainers_resume h
            (gotData ''topGainers'' ''/topGainers'' (gainers_call env) (cache st0)) st
      | RegionLosers \<Rightarrow>
          updateTopLosers_resume h
            (gotData ''topLosers'' ''/topLosers'' (losers_call env) (cache st0)) st
      | RegionActive \<Rightarrow>
          updateMostActive_resume h
            (gotData ''mostActive'' ''/mostActive'' (active_call env) (cache st0)) st
      | RegionSummary \<Rightarrow>
          updateMarketSummary_resume h
            (gotData ''marketSummary'' ''/marketSummery'' (summary_call env) (cache st0)) st
      | RegionTicker \<Rightarrow>
          if dom st0 ''ticker-content'' = None then (Inr (), st)
          else
            (case createTickerContent_resume h
                    (gotData ''topGainers'' ''/topGainers'' (ticker_gainers_call env) (cache st0))
                    (gotData ''topLosers'' ''/topLosers'' (ticker_losers_call env) (cache st0)) of
               Inl e \<Rightarrow> (Inl e, st)
             | Inr content \<Rightarrow> updateTicker_resume content st))"

text \<open>The sample pass, with only the call of \<open>updateTopGainers\<close> failing.\<close>

definition gainersCallDown :: pass_env where
  "gainersCallDown = (passOn sampleNet 5)\<lparr>gainers_call := callAt failingNet 5\<rparr>"

section \<open>The cache\<close>

lemma setCachedDataAll_other_key:
  "list_all (\<lambda>(k, d, t). k \<noteq> key) calls \<Longrightarrow> setCachedDataAll calls c key = c key"
  unfolding setCachedDataAll_def
  by (induction calls arbitrary: c) (auto simp: setCachedData_def)

text \<open>
  C1. A payload stored under \<open>key\<close> at time \<open>s\<close>, with any later stores under other keys,
  is read \<open>t\<close> ms later exactly as stored when \<open>t < 30000\<close>. When \<open>30000 \<le> t\<close> the read
  gives \<open>null\<close>, as it would if the key had no entry, and the entry is still in the cache.
\<close>

theorem getCachedData_after_set:
  "list_all (\<lambda>(k, d, t'). k \<noteq> key) others \<Longrightarrow>
   c' = setCachedDataAll others (setCachedData c s key payload) \<Longrightarrow>
     (t < 30000 \<longrightarrow> getCachedData c' (s + t) key = payload) \<and>
     (30000 \<le> t \<longrightarrow>
        getCachedData c' (s + t) key = JNull \<and>
        getCachedData c' (s + t) key = getCachedData (c'(key := None)) (s + t) key \<and>
        c' key = Some \<lparr>data = payload, timestamp = s\<rparr>)"
  using setCachedDataAll_other_key[of key others "setCachedData c s key payload"]
  by (simp add: getCachedData_def setCachedData_def cacheTimeout_def)

theorem getCachedData_after_set_witness:
  "list_all (\<lambda>(k, d, t'). k \<noteq> ''topGainers'') [(''topLosers'', JArr [], 1005)] \<and>
   getCachedData
     (setCachedDataAll [(''topLosers'', JArr [], 1005)]
        (setCachedData Map.empty 1000 ''topGainers'' (JArr [JNum (Fin 7)])))
     (1000 + 29999) ''topGainers'' = JArr [JNum (Fin 7)] \<and>
   getCachedData
     (setCachedDataAll [(''topLosers'', JArr [], 1005)]
        (setCachedData Map.empty 1000 ''topGainers'' (JArr [JNum (Fin 7)])))
     (1000 + 30000) ''topGainers'' = JNull"
proof -
  let ?others = "[(''topLosers'', JArr [], 1005 :: int)]"
  have h: "list_all (\<lambda>(k, d, t'). k \<noteq> ''topGainers'') ?others" by simp
  show ?thesis
    using h
      getCachedData_after_set[where c = Map.empty and s = 1000 and t = 29999, OF h refl]
      getCachedData_after_set[where c = Map.empty and s = 1000 and t = 30000, OF h refl]
    by simp
qed

section \<open>makeApiCall\<close>



section \<open>The getters\<close>

lemma getters_cases: "(g, key, ep) \<in> set getters \<Longrightarrow> g = cachedGetter key ep"
  by (auto simp: getters_def getMarketSummary_def getTopGainers_def getTopLosers_def
      getMostActive_def)

lemma cachedGetter_never_throws: "\<exists>d. fst (cachedGetter key ep env st) = Inr d"
  by (auto simp: cachedGetter_def awaitApiCall_def makeApiCall_def Let_def
      split: sum.splits prod.splits)

lemma cachedGetter_failed:
  "fst (makeApiCall (fetch env) ep (console st)) = Inr JNull \<Longrightarrow>
     cache (snd (cachedGetter key ep env st)) = cache st"
  by (auto simp: cachedGetter_def awaitApiCall_def Let_def split: sum.splits prod.splits)

lemma cachedGetter_new_entry:
  "cache (snd (cachedGetter key ep env st)) k = Some e \<Longrightarrow>
     cache st k = Some e \<or> (k = key \<and> truthy (data e) \<and> timestamp e = now_store env)"
  by (auto simp: cachedGetter_def awaitApiCall_def Let_def setCachedData_def
      split: sum.splits prod.splits if_splits)

lemma cachedGetter_miss_failed:
  "fst (makeApiCall (fetch env) ep (console st)) = Inr JNull \<Longrightarrow>
   \<not> truthy (getCachedData (cache st) (now_check env) key) \<Longrightarrow>
     fst (cachedGetter key ep env st) = Inr JNull"
  by (auto simp: cachedGetter_def awaitApiCall_def Let_def split: sum.splits prod.splits)

lemma cachedGetter_stores:
  "\<not> truthy (getCachedData (cache st) (now_check env) key) \<Longrightarrow>
   fst (makeApiCall (fetch env) ep (console st)) = Inr d \<Longrightarrow> truthy d \<Longrightarrow>
     fst (cachedGetter key ep env st) = Inr d \<and>
     cache (snd (cachedGetter key ep env st)) =
       (cache st)(key \<mapsto> \<lparr>data = d, timestamp = now_store env\<rparr>)"
  by (auto simp: cachedGetter_def awaitApiCall_def Let_def setCachedData_def
      split: sum.splits prod.splits)

text \<open>
  C4. Each of the four getters returns a value and never throws, and it adds no entry
  whose payload is \<open>null\<close>. When its \<open>makeApiCall\<close> gives \<open>null\<close>, the cache is as it was,
  so a key that read as absent still does, and on a miss the getter returns \<open>null\<close>.
\<close>

theorem getter_failed_fetch:
  "(g, key, ep) \<in> set getters \<Longrightarrow>
     (\<exists>d. fst (g env st) = Inr d) \<and>
     (\<forall>k e. cache (snd (g env st)) k = Some e \<and> cache st k \<noteq> Some e \<longrightarrow> data e \<noteq> JNull) \<and>
     (fst (makeApiCall (fetch env) ep (console st)) = Inr JNull \<longrightarrow>
        cache (snd (g env st)) = cache st \<and>
        (\<forall>now. getCachedData (cache st) now key = JNull \<longrightarrow>
                 getCachedData (cache (snd (g env st))) now key = JNull) \<and>
        (\<not> truthy (getCachedData (cache st) (now_check env) key) \<longrightarrow>
           fst (g env st) = Inr JNull))"
proof -
  assume "(g, key, ep) \<in> set getters"
  then have g: "g = cachedGetter key ep" by (rule getters_cases)
  have a: "\<exists>d. fst (g env st) = Inr d"
    unfolding g by (rule cachedGetter_never_throws)
  have b: "\<forall>k e. cache (snd (g env st)) k = Some e \<and> cache st k \<noteq> Some e \<longrightarrow> data e \<noteq> JNull"
    unfolding g using cachedGetter_new_entry[of key ep env st] by fastforce
  have c: "cache (snd (g env st)) = cache st"
    if "fst (makeApiCall (fetch env) ep (console st)) = Inr JNull"
    unfolding g using that by (rule cachedGetter_failed)
  have d: "fst (g env st) = Inr JNull"
    if "fst (makeApiCall (fetch env) ep (console st)) = Inr JNull"
      and "\<not> truthy (getCachedData (cache st) (now_check env) key)"
    unfolding g using that by (rule cachedGetter_miss_failed)
  show ?thesis using a b c d by simp
qed

theorem getter_failed_fetch_witness:
  "fst (getTopGainers (callAt failingNet 5) freshApi) = Inr JNull \<and>
   cache (snd (getTopGainers (callAt failingNet 5) freshApi)) = Map.empty \<and>
   getCachedData (cache (snd (getTopGainers (callAt failingNet 5) freshApi))) 6 ''topGainers'' = JNull"
  using getter_failed_fetch[of getTopGainers "''topGainers''" "''/topGainers''"
      "callAt failingNet 5" freshApi]
  by (simp add: getters_def makeApiCall_def makeApiCall_try_def failingNet_def freshApi_def
      callAt_def getCachedData_def)

text \<open>
  C5, as the code has it. On a miss or expiry each getter calls \<open>makeApiCall\<close>, and a
  truthy result is stored under the getter's key with the timestamp of that moment and
  returned; a read at that moment gives it back.
\<close>

theorem getter_stores_truthy:
  "(g, key, ep) \<in> set getters \<Longrightarrow>
   \<not> truthy (getCachedData (cache st) (now_check env) key) \<Longrightarrow>
   fst (makeApiCall (fetch env) ep (console st)) = Inr d \<Longrightarrow> truthy d \<Longrightarrow>
     fst (g env st) = Inr d \<and>
     cache (snd (g env st)) key = Some \<lparr>data = d, timestamp = now_store env\<rparr> \<and>
     getCachedData (cache (snd (g env st))) (now_store env) key = d"
  using cachedGetter_stores[of st env key ep d]
  by (auto dest!: getters_cases simp: getCachedData_def cacheTimeout_def)

theorem getter_stores_truthy_witness:
  "fst (getTopGainers (callAt (bodyNet (JArr [])) 5) freshApi) = Inr (JArr []) \<and>
   cache (snd (getTopGainers (callAt (bodyNet (JArr [])) 5) freshApi)) ''topGainers'' =
     Some \<lparr>data = JArr [], timestamp = 5\<rparr>"
  using getter_stores_truthy[of getTopGainers "''topGainers''" "''/topGainers''" freshApi
      "callAt (bodyNet (JArr [])) 5" "JArr []"]
  by (simp add: getters_def makeApiCall_def makeApiCall_try_def bodyNet_def freshApi_def
      callAt_def getCachedData_def response_ok_def)

text \<open>
  C5 as the specification words it fails: the endpoint answers with the JSON number
  \<open>0\<close>, which is not \<open>null\<close>; the getter returns it and stores nothing.
\<close>

theorem getter_nonnull_not_stored:
  "fst (getTopGainers (callAt (bodyNet (JNum (Fin 0))) 5) freshApi) = Inr (JNum (Fin 0)) \<and>
   JNum (Fin 0) \<noteq> JNull \<and>
   cache (snd (getTopGainers (callAt (bodyNet (JNum (Fin 0))) 5) freshApi)) ''topGainers'' = None"
  by (simp add: getTopGainers_def cachedGetter_def awaitApiCall_def makeApiCall_def
      makeApiCall_try_def bodyNet_def freshApi_def callAt_def getCachedData_def response_ok_def)

section \<open>Formatting\<close>

lemma decimal_digits: "set (decimal n) \<subseteq> set ''0123456789''"
proof (induction n rule: decimal.induct)
  case (1 n)
  have d: "digitChar k \<in> set ''0123456789''" if "k < 10" for k
  proof -
    from that have "nat k < length ''0123456789''" by simp
    then show ?thesis unfolding digitChar_def by (rule nth_mem)
  qed
  show ?case
  proof (cases "n < 10")
    case True
    then show ?thesis using d[of n] by (subst decimal.simps) simp
  next
    case False
    then show ?thesis using 1 d[of "n mod 10"] by (subst decimal.simps) simp
  qed
qed

lemma decimal_nonempty: "decimal n \<noteq> []"
  by (subst decimal.simps) simp

lemma fixedDigits_two:
  "\<exists>ip fr. fixedDigits a 2 = ip @ ''.'' @ fr \<and> ip \<noteq> [] \<and> length fr = 2 \<and>
     list_all isDigit ip \<and> list_all isDigit fr"
proof -
  define m where "m = decimal \<lfloor>a * 10 ^ 2 + 1 / 2\<rfloor>"
  define m' where "m' = (if length m \<le> 2 then replicate (2 + 1 - length m) CHR ''0'' @ m else m)"
  have len: "3 \<le> length m'" by (auto simp: m'_def)
  have "set m \<subseteq> set ''0123456789''"
    unfolding m_def by (rule decimal_digits)
  then have "set m' \<subseteq> set ''0123456789''"
    unfolding m'_def by (cases "length m \<le> 2") auto
  then have dig: "list_all isDigit m'"
    unfolding list_all_iff isDigit_def by blast
  have eq: "fixedDigits a 2 = take (length m' - 2) m' @ ''.'' @ drop (length m' - 2) m'"
    unfolding fixedDigits_def m'_def m_def Let_def by simp
  have d1: "list_all isDigit (take (length m' - 2) m')"
    using dig unfolding list_all_iff by (blast dest: in_set_takeD)
  have d2: "list_all isDigit (drop (length m' - 2) m')"
    using dig unfolding list_all_iff by (blast dest: in_set_dropD)
  have n1: "take (length m' - 2) m' \<noteq> []" using len by auto
  have n2: "length (drop (length m' - 2) m') = 2" using len by auto
  show ?thesis
    using eq d1 d2 n1 n2 by blast
qed

lemma toFixed_two_digits:
  "\<bar>y\<bar> < 10 ^ 21 \<Longrightarrow>
     \<exists>ip fr. toFixed h (Fin y) 2 = (if y < 0 then ''-'' else []) @ ip @ ''.'' @ fr \<and>
       ip \<noteq> [] \<and> length fr = 2 \<and> list_all isDigit ip \<and> list_all isDigit fr"
  using fixedDigits_two[of "\<bar>y\<bar>"] by (simp add: Let_def)

lemma formatLargeNumber_Fin:
  "formatLargeNumber h (JNum (Fin x)) = toFixed h (scaledNumber x) 2 @ scaleSuffix x"
  by (simp add: formatLargeNumber_def scaledNumber_def scaleSuffix_def Let_def)

text \<open>
  C6. \<open>formatPercentageChange(0)\<close> is \<open>{value: "0.00", isPositive: true, color:
  "positive"}\<close>. Every number that is zero or more, \<open>Infinity\<close> included, is classified
  \<open>isPositive\<close> with color \<open>positive\<close>, and every number below zero, \<open>-Infinity\<close>
  included, is not \<open>isPositive\<close> and has color \<open>negative\<close>.
\<close>

theorem formatPercentageChange_sign:
  "formatPercentageChange h (JNum (Fin 0)) =
     \<lparr>value' = ''0.00'', isPositive = True, color = ''positive''\<rparr> \<and>
   (0 \<le> x \<longrightarrow>
      isPositive (formatPercentageChange h (JNum (Fin x))) \<and>
      color (formatPercentageChange h (JNum (Fin x))) = ''positive'') \<and>
   (x < 0 \<longrightarrow>
      \<not> isPositive (formatPercentageChange h (JNum (Fin x))) \<and>
      color (formatPercentageChange h (JNum (Fin x))) = ''negative'') \<and>
   isPositive (formatPercentageChange h (JNum PosInf)) \<and>
   color (formatPercentageChange h (JNum PosInf)) = ''positive'' \<and>
   \<not> isPositive (formatPercentageChange h (JNum NegInf)) \<and>
   color (formatPercentageChange h (JNum NegInf)) = ''negative''"
proof -
  have z: "fixedDigits 0 2 = ''0.00''"
    by code_simp
  show ?thesis
    by (simp add: formatPercentageChange_def Let_def z)
qed

theorem formatPercentageChange_sign_witness:
  "formatPercentageChange testHost (JNum (Fin (5 / 4))) =
     \<lparr>value' = ''1.25'', isPositive = True, color = ''positive''\<rparr> \<and>
   formatPercentageChange testHost (JNum (Fin (- 3456 / 1000))) =
     \<lparr>value' = ''-3.46'', isPositive = False, color = ''negative''\<rparr>"
proof -
  have a: "value' (formatPercentageChange testHost (JNum (Fin (5 / 4)))) = ''1.25''"
    by code_simp
  have b: "value' (formatPercentageChange testHost (JNum (Fin (- 3456 / 1000)))) = ''-3.46''"
    by code_simp
  show ?thesis
    using a b formatPercentageChange_sign[of testHost "5 / 4"]
      formatPercentageChange_sign[of testHost "- 3456 / 1000"]
    by (simp add: formatted_change.equality)
qed

text \<open>
  C2, as the code has it. For a finite number \<open>x\<close>, \<open>formatLargeNumber\<close> divides by the
  first of \<open>1e9\<close>, \<open>1e6\<close>, \<open>1e3\<close> that \<open>x\<close> itself, with its sign, meets or exceeds, and
  appends \<open>B\<close>, \<open>M\<close> or \<open>K\<close>; a number below \<open>1e3\<close>, so every negative number, is
  neither scaled nor given a suffix. The scaled value is rendered by \<open>toFixed(2)\<close>, which
  gives an optional sign, digits, a point and exactly two digits when the scaled value is
  finite and below \<open>1e21\<close> in magnitude. \<open>1000000000\<close> gives \<open>1.00B\<close>, \<open>999\<close> gives
  \<open>999.00\<close> and \<open>1500\<close> gives \<open>1.50K\<close>.
\<close>

theorem formatLargeNumber_thresholds:
  "formatLargeNumber h (JNum (Fin x)) = toFixed h (scaledNumber x) 2 @ scaleSuffix x \<and>
   (10 ^ 9 \<le> x \<longrightarrow> scaledNumber x = js_div (Fin x) (10 ^ 9) \<and> scaleSuffix x = ''B'') \<and>
   (10 ^ 6 \<le> x \<and> x < 10 ^ 9 \<longrightarrow>
      scaledNumber x = js_div (Fin x) (10 ^ 6) \<and> scaleSuffix x = ''M'') \<and>
   (10 ^ 3 \<le> x \<and> x < 10 ^ 6 \<longrightarrow>
      scaledNumber x = js_div (Fin x) (10 ^ 3) \<and> scaleSuffix x = ''K'') \<and>
   (x < 10 ^ 3 \<longrightarrow> scaledNumber x = Fin x \<and> scaleSuffix x = []) \<and>
   (\<forall>y. scaledNumber x = Fin y \<and> \<bar>y\<bar> < 10 ^ 21 \<longrightarrow>
      (\<exists>ip fr. formatLargeNumber h (JNum (Fin x)) =
                 (if y < 0 then ''-'' else []) @ ip @ ''.'' @ fr @ scaleSuffix x \<and>
         ip \<noteq> [] \<and> length fr = 2 \<and> list_all isDigit ip \<and> list_all isDigit fr)) \<and>
   formatLargeNumber h (JNum (Fin 1000000000)) = ''1.00B'' \<and>
   formatLargeNumber h (JNum (Fin 999)) = ''999.00'' \<and>
   formatLargeNumber h (JNum (Fin 1500)) = ''1.50K''"
proof -
  have shape: "\<exists>ip fr. formatLargeNumber h (JNum (Fin x)) =
                 (if y < 0 then ''-'' else []) @ ip @ ''.'' @ fr @ scaleSuffix x \<and>
         ip \<noteq> [] \<and> length fr = 2 \<and> list_all isDigit ip \<and> list_all isDigit fr"
    if "scaledNumber x = Fin y" and "\<bar>y\<bar> < 10 ^ 21" for y
  proof -
    from toFixed_two_digits[OF that(2), of h] obtain ip fr where
      "toFixed h (Fin y) 2 = (if y < 0 then ''-'' else []) @ ip @ ''.'' @ fr"
      "ip \<noteq> []" "length fr = 2" "list_all isDigit ip" "list_all isDigit fr"
      by blast
    then show ?thesis
      unfolding formatLargeNumber_Fin that(1) by auto
  qed
  have e1: "formatLargeNumber h (JNum (Fin 1000000000)) = ''1.00B''"
  proof -
    have "scaledNumber 1000000000 = Fin 1" "scaleSuffix 1000000000 = ''B''"
      "fixedDigits 1 2 = ''1.00''"
      by code_simp+
    then show ?thesis unfolding formatLargeNumber_Fin by (simp add: Let_def)
  qed
  have e2: "formatLargeNumber h (JNum (Fin 999)) = ''999.00''"
  proof -
    have "scaledNumber 999 = Fin 999" "scaleSuffix 999 = []" "fixedDigits 999 2 = ''999.00''"
      by code_simp+
    then show ?thesis unfolding formatLargeNumber_Fin by (simp add: Let_def)
  qed
  have e3: "formatLargeNumber h (JNum (Fin 1500)) = ''1.50K''"
  proof -
    have "scaledNumber 1500 = Fin (3 / 2)" "scaleSuffix 1500 = ''K''"
      "fixedDigits (3 / 2) 2 = ''1.50''"
      by code_simp+
    then show ?thesis unfolding formatLargeNumber_Fin by (simp add: Let_def)
  qed
  have sc: "(10 ^ 9 \<le> x \<longrightarrow> scaledNumber x = js_div (Fin x) (10 ^ 9) \<and> scaleSuffix x = ''B'') \<and>
   (10 ^ 6 \<le> x \<and> x < 10 ^ 9 \<longrightarrow>
      scaledNumber x = js_div (Fin x) (10 ^ 6) \<and> scaleSuffix x = ''M'') \<and>
   (10 ^ 3 \<le> x \<and> x < 10 ^ 6 \<longrightarrow>
      scaledNumber x = js_div (Fin x) (10 ^ 3) \<and> scaleSuffix x = ''K'') \<and>
   (x < 10 ^ 3 \<longrightarrow> scaledNumber x = Fin x \<and> scaleSuffix x = [])"
    by (simp add: scaledNumber_def scaleSuffix_def)
  show ?thesis
    using shape e1 e2 e3 sc formatLargeNumber_Fin[of h x] by blast
qed

theorem formatLargeNumber_thresholds_witness:
  "formatLargeNumber testHost (JNum (Fin 2500000)) = ''2.50M'' \<and>
   scaledNumber 2500000 = Fin (5 / 2) \<and> scaleSuffix 2500000 = ''M'' \<and>
   formatLargeNumber testHost (JNum (Fin 12)) = ''12.00'' \<and>
   formatLargeNumber testHost (JNum (Fin 7250)) = ''7.25K'' \<and>
   formatLargeNumber testHost (JNum (Fin 3000000000)) = ''3.00B''"
proof -
  have s: "scaledNumber 2500000 = Fin (5 / 2)" by code_simp
  have f: "fixedDigits (5 / 2) 2 = ''2.50''" by code_simp
  have a: "formatLargeNumber testHost (JNum (Fin 12)) = ''12.00''" by code_simp
  have b: "formatLargeNumber testHost (JNum (Fin 7250)) = ''7.25K''" by code_simp
  have c: "formatLargeNumber testHost (JNum (Fin 3000000000)) = ''3.00B''" by code_simp
  show ?thesis
    using formatLargeNumber_thresholds[of testHost 2500000] s f a b c
    by (simp add: Let_def)
qed

text \<open>
  C2 as the specification words it fails: \<open>-5000\<close> has an absolute value of \<open>1e3\<close> or
  more, and the code renders it unscaled, where the specification's wording gives
  \<open>-5.00K\<close>.
\<close>

theorem formatLargeNumber_negative_unscaled:
  "formatLargeNumber testHost (JNum (Fin (- 5000))) = ''-5000.00'' \<and>
   formatLargeNumber_spec testHost (JNum (Fin (- 5000))) = ''-5.00K''"
proof -
  have a: "formatLargeNumber testHost (JNum (Fin (- 5000))) = ''-5000.00''" by code_simp
  have b: "formatLargeNumber_spec testHost (JNum (Fin (- 5000))) = ''-5.00K''" by code_simp
  show ?thesis using a b by simp
qed

section \<open>The page and the update operations\<close>

lemma dom_setInnerHTML [simp]:
  "dom (setInnerHTML i html st) j =
     (if j = i then map_option (\<lambda>el. el\<lparr>body := InnerHTML html\<rparr>) (dom st i) else dom st j)"
  by (simp add: setInnerHTML_def split: option.splits)

lemma dom_setTextContent [simp]:
  "dom (setTextContent i txt st) j =
     (if j = i then map_option (\<lambda>el. el\<lparr>body := TextContent txt\<rparr>) (dom st i) else dom st j)"
  by (simp add: setTextContent_def split: option.splits)

lemma dom_setClassName [simp]:
  "dom (setClassName i cls st) j =
     (if j = i then map_option (\<lambda>el. el\<lparr>className := cls\<rparr>) (dom st i) else dom st j)"
  by (simp add: setClassName_def split: option.splits)

lemma dom_showError [simp]:
  "dom (showError i message st) j =
     (if j = i then map_option (\<lambda>el. el\<lparr>body := InnerHTML (errorFragment message)\<rparr>) (dom st i)
      else dom st j)"
  by (simp add: showError_def Let_def)

lemma tableHead_first: "hd (tableHead title) = CHR 0x0A \<and> tableHead title \<noteq> []"
  by (simp add: tableHead_def)

text \<open>
  C7. For every title, \<open>createStocksTable\<close> of an absent (falsy) or empty row sequence
  returns the one notice, \<open>No\<close>, the title in lower case, \<open>data available\<close>, and not the
  table markup with no rows.
\<close>

theorem createStocksTable_empty:
  "\<not> truthy stocks \<or> stocks = JArr [] \<Longrightarrow>
     createStocksTable h stocks title =
       Inr (''<div class=\"text-center text-muted\">No '' @ toLowerCase h title @
            '' data available</div>'') \<and>
     createStocksTable h stocks title \<noteq> Inr (tableHead title @ tableFoot)"
proof -
  assume a: "\<not> truthy stocks \<or> stocks = JArr []"
  then have r: "createStocksTable h stocks title = Inr (noDataNotice h title)"
    by (auto simp: createStocksTable_def)
  have "hd (noDataNotice h title) \<noteq> hd (tableHead title @ tableFoot)"
    using tableHead_first[of title] by (simp add: noDataNotice_def)
  then have "noDataNotice h title \<noteq> tableHead title @ tableFoot" by auto
  then show ?thesis using r by (simp add: noDataNotice_def)
qed

theorem createStocksTable_empty_witness:
  "createStocksTable testHost (JArr []) ''Most Active'' =
     Inr ''<div class=\"text-center text-muted\">No most active data available</div>'' \<and>
   createStocksTable testHost JNull ''Gainers'' \<noteq> Inr (tableHead ''Gainers'' @ tableFoot)"
proof -
  have l: "toLowerCase testHost ''Most Active'' = ''most active''" by code_simp
  have h1: "\<not> truthy (JArr []) \<or> JArr [] = JArr []" by simp
  have h2: "\<not> truthy JNull \<or> JNull = JArr []" by simp
  have a: "createStocksTable testHost (JArr []) ''Most Active'' =
     Inr ''<div class=\"text-center text-muted\">No most active data available</div>''"
    using createStocksTable_empty[OF h1, of testHost "''Most Active''"] by (simp add: l)
  have b: "createStocksTable testHost JNull ''Gainers'' \<noteq> Inr (tableHead ''Gainers'' @ tableFoot)"
    using createStocksTable_empty[OF h2, of testHost "''Gainers''"] by (rule conjunct2)
  show ?thesis using a b by (rule conjI)
qed


lemma dom_awaitApiCall [simp]: "dom (snd (awaitApiCall key ep env st)) = dom st"
  by (simp add: awaitApiCall_def split: prod.splits sum.splits)

lemma dom_cachedGetter [simp]: "dom (snd (cachedGetter key ep env st)) = dom st"
  by (simp add: cachedGetter_def Let_def)








section \<open>Zero fields of the market summary\<close>

lemma zeroOrMissing_falsy: "zeroOrMissing v \<Longrightarrow> \<not> truthy v"
  by (auto simp: zeroOrMissing_def)

lemma dom_showChange_other: "j \<noteq> i \<Longrightarrow> dom (showChange h i d st) j = dom st j"
  by (simp add: showChange_def Let_def)

lemma showChange_falsy: "\<not> truthy (getProp d ''ASPIChange'') \<Longrightarrow> showChange h i d st = st"
  by (simp add: showChange_def)

lemma dom_showLargeNumber_other: "j \<noteq> i \<Longrightarrow> dom (showLargeNumber h i f d st) j = dom st j"
  by (simp add: showLargeNumber_def)

lemma showLargeNumber_falsy: "\<not> truthy (getProp d f) \<Longrightarrow> showLargeNumber h i f d st = st"
  by (simp add: showLargeNumber_def)

lemma dom_summaryRest_other:
  "j \<noteq> ''market-turnover'' \<Longrightarrow> j \<noteq> ''market-cap'' \<Longrightarrow> j \<noteq> ''market-change'' \<Longrightarrow>
     dom (summaryRest h d st) j = dom st j"
  by (simp add: summaryRest_def dom_showChange_other dom_showLargeNumber_other)

lemma updateASPI_zero_index:
  "truthy d \<Longrightarrow> \<not> truthy (getProp d ''ASPI'') \<Longrightarrow>
     dom (snd (updateASPI_resume h d st)) ''aspi-index'' = dom st ''aspi-index''"
  by (simp add: updateASPI_resume_def dom_showChange_other)

lemma updateASPI_zero_change:
  "truthy d \<Longrightarrow> \<not> truthy (getProp d ''ASPIChange'') \<Longrightarrow>
     dom (snd (updateASPI_resume h d st)) ''aspi-change'' = dom st ''aspi-change''"
  by (simp add: updateASPI_resume_def showChange_falsy split: sum.splits)

lemma updateMarketSummary_zero_aspi:
  "truthy d \<Longrightarrow> \<not> truthy (getProp d ''ASPI'') \<Longrightarrow>
     dom (snd (updateMarketSummary_resume h d st)) ''market-aspi'' =
       map_option (\<lambda>el. el\<lparr>body := TextContent ''N/A''\<rparr>) (dom st ''market-aspi'')"
  by (simp add: updateMarketSummary_resume_def dom_summaryRest_other)

lemma updateMarketSummary_zero_turnover:
  "truthy d \<Longrightarrow> \<not> truthy (getProp d ''turnover'') \<Longrightarrow>
     dom (snd (updateMarketSummary_resume h d st)) ''market-turnover'' = dom st ''market-turnover''"
  by (simp add: updateMarketSummary_resume_def summaryRest_def showLargeNumber_falsy
      dom_showChange_other dom_showLargeNumber_other split: sum.splits)

lemma updateMarketSummary_zero_cap:
  "truthy d \<Longrightarrow> \<not> truthy (getProp d ''marketCap'') \<Longrightarrow>
     dom (snd (updateMarketSummary_resume h d st)) ''market-cap'' = dom st ''market-cap''"
  by (simp add: updateMarketSummary_resume_def summaryRest_def showLargeNumber_falsy
      dom_showChange_other dom_showLargeNumber_other split: sum.splits)

lemma updateMarketSummary_zero_change:
  "truthy d \<Longrightarrow> \<not> truthy (getProp d ''ASPIChange'') \<Longrightarrow>
     dom (snd (updateMarketSummary_resume h d st)) ''market-change'' = dom st ''market-change''"
  by (simp add: updateMarketSummary_resume_def summaryRest_def showChange_falsy
      dom_showLargeNumber_other split: sum.splits)

lemma getMarketSummary_result:
  "fst (getMarketSummary env st) = Inr d \<Longrightarrow>
     \<exists>st1. getMarketSummary env st = (Inr d, st1) \<and> dom st1 = dom st"
proof -
  assume a: "fst (getMarketSummary env st) = Inr d"
  have "dom (snd (getMarketSummary env st)) = dom st"
    by (simp add: getMarketSummary_def)
  then show ?thesis using a by (cases "getMarketSummary env st") auto
qed

text \<open>
  C10. When \<open>getMarketSummary\<close> returns a summary in which a field is the number zero
  or is missing, \<open>updateASPI\<close> and \<open>updateMarketSummary\<close> leave the element of that
  field as it was: \<open>aspi-index\<close> for \<open>ASPI\<close>, \<open>aspi-change\<close> and \<open>market-change\<close> for
  \<open>ASPIChange\<close>, \<open>market-turnover\<close> for \<open>turnover\<close>, \<open>market-cap\<close> for \<open>marketCap\<close>.
  The one exception is \<open>market-aspi\<close>, whose text becomes \<open>N/A\<close>.
\<close>

theorem zero_field_like_missing:
  "fst (getMarketSummary env st) = Inr d \<Longrightarrow> truthy d \<Longrightarrow>
     (zeroOrMissing (getProp d ''ASPI'') \<longrightarrow>
        dom (snd (updateASPI h env st)) ''aspi-index'' = dom st ''aspi-index'' \<and>
        dom (snd (updateMarketSummary h env st)) ''market-aspi'' =
          map_option (\<lambda>el. el\<lparr>body := TextContent ''N/A''\<rparr>) (dom st ''market-aspi'')) \<and>
     (zeroOrMissing (getProp d ''ASPIChange'') \<longrightarrow>
        dom (snd (updateASPI h env st)) ''aspi-change'' = dom st ''aspi-change'' \<and>
        dom (snd (updateMarketSummary h env st)) ''market-change'' = dom st ''market-change'') \<and>
     (zeroOrMissing (getProp d ''turnover'') \<longrightarrow>
        dom (snd (updateMarketSummary h env st)) ''market-turnover'' =
          dom st ''market-turnover'') \<and>
     (zeroOrMissing (getProp d ''marketCap'') \<longrightarrow>
        dom (snd (updateMarketSummary h env st)) ''market-cap'' = dom st ''market-cap'')"
proof -
  assume g: "fst (getMarketSummary env st) = Inr d" and t: "truthy d"
  from getMarketSummary_result[OF g] obtain st1
    where g1: "getMarketSummary env st = (Inr d, st1)" and d1: "dom st1 = dom st"
    by blast
  have a: "updateASPI h env st = updateASPI_resume h d st1"
    by (simp add: updateASPI_def thenDo_def g1)
  have m: "updateMarketSummary h env st = updateMarketSummary_resume h d st1"
    by (simp add: updateMarketSummary_def thenDo_def g1)
  show ?thesis
    unfolding a m d1[symmetric]
    using updateASPI_zero_index[OF t, of h st1] updateASPI_zero_change[OF t, of h st1]
      updateMarketSummary_zero_aspi[OF t, of h st1]
      updateMarketSummary_zero_turnover[OF t, of h st1]
      updateMarketSummary_zero_cap[OF t, of h st1]
      updateMarketSummary_zero_change[OF t, of h st1]
      zeroOrMissing_falsy
    by blast
qed

theorem zero_field_like_missing_witness:
  "dom (snd (updateMarketSummary testHost (callAt (bodyNet sampleSummary) 5) samplePage))
       ''market-aspi'' = Some \<lparr>body = TextContent ''N/A'', className = []\<rparr> \<and>
   dom (snd (updateMarketSummary testHost (callAt (bodyNet sampleSummary) 5) samplePage))
       ''market-turnover'' = Some blank \<and>
   dom (snd (updateMarketSummary testHost (callAt (bodyNet sampleSummary) 5) samplePage))
       ''market-change'' = Some blank \<and>
   dom (snd (updateASPI testHost (callAt (bodyNet sampleSummary) 5) samplePage))
       ''aspi-index'' = Some blank \<and>
   dom (snd (updateASPI testHost (callAt (bodyNet sampleSummary) 5) samplePage))
       ''aspi-change'' = Some blank"
proof -
  have g: "fst (getMarketSummary (callAt (bodyNet sampleSummary) 5) samplePage) = Inr sampleSummary"
    by (simp add: getMarketSummary_def cachedGetter_def awaitApiCall_def makeApiCall_def
        makeApiCall_try_def bodyNet_def callAt_def getCachedData_def samplePage_def
        response_ok_def sampleSummary_def)
  have t: "truthy sampleSummary" by (simp add: sampleSummary_def)
  have z: "zeroOrMissing (getProp sampleSummary ''ASPI'')"
    "zeroOrMissing (getProp sampleSummary ''ASPIChange'')"
    "zeroOrMissing (getProp sampleSummary ''turnover'')"
    by (simp_all add: sampleSummary_def zeroOrMissing_def)
  have e: "dom samplePage ''market-aspi'' = Some blank"
    "dom samplePage ''market-turnover'' = Some blank"
    "dom samplePage ''market-change'' = Some blank"
    "dom samplePage ''aspi-index'' = Some blank"
    "dom samplePage ''aspi-change'' = Some blank"
    by (simp_all add: samplePage_def)
  show ?thesis
    using zero_field_like_missing[OF g t, of testHost] z e
    by (simp add: blank_def)
qed

section \<open>One pass of initialize\<close>

subsection \<open>What a getter returns does not depend on the console or the page\<close>

lemma fst_makeApiCall: "fst (makeApiCall f ep con) = Inr (fetchedData f ep)"
  by (simp add: makeApiCall_def fetchedData_def split: sum.splits)

lemma fst_awaitApiCall: "fst (awaitApiCall key ep env st) = Inr (fetchedData (fetch env) ep)"
  using fst_makeApiCall[of "fetch env" ep "console st"]
  by (auto simp: awaitApiCall_def split: prod.splits sum.splits)

lemma resumeGetter_result:
  "\<exists>st1. resumeGetter key ep env c0 st = (Inr (gotData key ep env c0), st1) \<and> dom st1 = dom st"
proof (cases "truthy (getCachedData c0 (now_check env) key)")
  case True
  then show ?thesis by (simp add: resumeGetter_def gotData_def)
next
  case False
  have "fst (awaitApiCall key ep env st) = Inr (fetchedData (fetch env) ep)"
    by (rule fst_awaitApiCall)
  moreover have "dom (snd (awaitApiCall key ep env st)) = dom st" by simp
  ultimately show ?thesis
    using False by (cases "awaitApiCall key ep env st") (simp add: resumeGetter_def gotData_def)
qed

lemma cachedGetter_resumeGetter: "cachedGetter key ep env st = resumeGetter key ep env (cache st) st"
  by (simp add: cachedGetter_def resumeGetter_def)


lemma resumeUpdate_render:
  "\<exists>st1. dom st1 = dom st \<and> resumeUpdate h env st0 r st = renderRegion h env st0 r st1"
proof (cases r)
  case RegionASPI
  from resumeGetter_result[of "''marketSummary''" "''/marketSummery''" "aspi_call env" "cache st0" st]
  show ?thesis unfolding RegionASPI
    by (auto simp: resumeUpdate_def renderRegion_def thenDo_def)
next
  case RegionGainers
  from resumeGetter_result[of "''topGainers''" "''/topGainers''" "gainers_call env" "cache st0" st]
  show ?thesis unfolding RegionGainers
    by (auto simp: resumeUpdate_def renderRegion_def thenDo_def)
next
  case RegionLosers
  from resumeGetter_result[of "''topLosers''" "''/topLosers''" "losers_call env" "cache st0" st]
  show ?thesis unfolding RegionLosers
    by (auto simp: resumeUpdate_def renderRegion_def thenDo_def)
next
  case RegionActive
  from resumeGetter_result[of "''mostActive''" "''/mostActive''" "active_call env" "cache st0" st]
  show ?thesis unfolding RegionActive
    by (auto simp: resumeUpdate_def renderRegion_def thenDo_def)
next
  case RegionSummary
  from resumeGetter_result[of "''marketSummary''" "''/marketSummery''" "summary_call env" "cache st0" st]
  show ?thesis unfolding RegionSummary
    by (auto simp: resumeUpdate_def renderRegion_def thenDo_def)
next
  case RegionTicker
  from resumeGetter_result[of "''topGainers''" "''/topGainers''" "ticker_gainers_call env" "cache st0" st]
  obtain st1 where g1: "resumeGetter ''topGainers'' ''/topGainers'' (ticker_gainers_call env) (cache st0) st =
      (Inr (gotData ''topGainers'' ''/topGainers'' (ticker_gainers_call env) (cache st0)), st1)"
    and d1: "dom st1 = dom st" by blast
  from resumeGetter_result[of "''topLosers''" "''/topLosers''" "ticker_losers_call env" "cache st0" st1]
  obtain st2 where g2: "resumeGetter ''topLosers'' ''/topLosers'' (ticker_losers_call env) (cache st0) st1 =
      (Inr (gotData ''topLosers'' ''/topLosers'' (ticker_losers_call env) (cache st0)), st2)"
    and d2: "dom st2 = dom st1" by blast
  show ?thesis
  proof (cases "dom st0 ''ticker-content'' = None")
    case True
    then show ?thesis unfolding RegionTicker
      by (auto simp: resumeUpdate_def renderRegion_def)
  next
    case False
    then obtain el where el: "dom st0 ''ticker-content'' = Some el" by blast
    have "dom st2 = dom st" using d1 d2 by simp
    moreover have "resumeUpdate h env st0 RegionTicker st = renderRegion h env st0 RegionTicker st2"
      by (simp add: resumeUpdate_def renderRegion_def thenDo_def g1 g2 el split: sum.splits)
    ultimately show ?thesis unfolding RegionTicker by blast
  qed
qed

subsection \<open>What each update does to the page\<close>

lemma dom_showChange:
  "dom (showChange h i d st) j =
     (if j = i \<and> truthy (getProp d ''ASPIChange'')
      then map_option
             (\<lambda>el. el\<lparr>body := TextContent (value' (formatPercentageChange h (getProp d ''ASPIChange'')) @ ''%''),
                      className := ''cse-change '' @ color (formatPercentageChange h (getProp d ''ASPIChange''))\<rparr>)
             (dom st i)
      else dom st j)"
  by (cases "dom st i") (simp_all add: showChange_def Let_def)

lemma dom_showLargeNumber:
  "dom (showLargeNumber h i f d st) j =
     (if j = i \<and> truthy (getProp d f)
      then map_option (\<lambda>el. el\<lparr>body := TextContent (formatLargeNumber h (getProp d f))\<rparr>) (dom st i)
      else dom st j)"
  by (cases "dom st i") (simp_all add: showLargeNumber_def)

lemma showTable_frame:
  "j \<noteq> errorId \<Longrightarrow> j \<noteq> containerId \<Longrightarrow>
     dom (snd (showTable h errorId message containerId title d st)) j = dom st j"
  by (simp add: showTable_def split: sum.splits)

lemma showTable_local:
  "dom st errorId = dom st' errorId \<Longrightarrow> dom st containerId = dom st' containerId \<Longrightarrow>
   j = errorId \<or> j = containerId \<Longrightarrow>
     dom (snd (showTable h errorId message containerId title d st)) j =
     dom (snd (showTable h errorId message containerId title d st')) j"
  by (auto simp: showTable_def split: sum.splits)

lemma updateASPI_resume_frame:
  "j \<noteq> ''ASPI'' \<Longrightarrow> j \<noteq> ''aspi-index'' \<Longrightarrow> j \<noteq> ''aspi-change'' \<Longrightarrow>
     dom (snd (updateASPI_resume h d st)) j = dom st j"
  by (simp add: updateASPI_resume_def dom_showChange split: sum.splits)

lemma updateASPI_resume_local:
  "dom st ''ASPI'' = dom st' ''ASPI'' \<Longrightarrow> dom st ''aspi-index'' = dom st' ''aspi-index'' \<Longrightarrow>
   dom st ''aspi-change'' = dom st' ''aspi-change'' \<Longrightarrow>
   j = ''ASPI'' \<or> j = ''aspi-index'' \<or> j = ''aspi-change'' \<Longrightarrow>
     dom (snd (updateASPI_resume h d st)) j = dom (snd (updateASPI_resume h d st')) j"
  by (auto simp: updateASPI_resume_def dom_showChange split: sum.splits)

lemma dom_summaryRest:
  "dom (summaryRest h d st) j =
     dom (showChange h ''market-change'' d
       (showLargeNumber h ''market-cap'' ''marketCap'' d
          (showLargeNumber h ''market-turnover'' ''turnover'' d st))) j"
  by (simp add: summaryRest_def)

lemma updateMarketSummary_resume_frame:
  "j \<noteq> ''summary'' \<Longrightarrow> j \<noteq> ''market-aspi'' \<Longrightarrow> j \<noteq> ''market-turnover'' \<Longrightarrow>
   j \<noteq> ''market-cap'' \<Longrightarrow> j \<noteq> ''market-change'' \<Longrightarrow>
     dom (snd (updateMarketSummary_resume h d st)) j = dom st j"
  by (simp add: updateMarketSummary_resume_def summaryRest_def dom_showChange dom_showLargeNumber
      split: sum.splits)

lemma updateMarketSummary_resume_local:
  "dom st ''summary'' = dom st' ''summary'' \<Longrightarrow> dom st ''market-aspi'' = dom st' ''market-aspi'' \<Longrightarrow>
   dom st ''market-turnover'' = dom st' ''market-turnover'' \<Longrightarrow>
   dom st ''market-cap'' = dom st' ''market-cap'' \<Longrightarrow>
   dom st ''market-change'' = dom st' ''market-change'' \<Longrightarrow>
   j = ''summary'' \<or> j = ''market-aspi'' \<or> j = ''market-turnover'' \<or> j = ''market-cap'' \<or>
     j = ''market-change'' \<Longrightarrow>
     dom (snd (updateMarketSummary_resume h d st)) j =
     dom (snd (updateMarketSummary_resume h d st')) j"
  by (auto simp: updateMarketSummary_resume_def summaryRest_def dom_showChange dom_showLargeNumber
      split: sum.splits)

lemma updateTicker_resume_frame:
  "j \<noteq> ''ticker-content'' \<Longrightarrow> dom (snd (updateTicker_resume content st)) j = dom st j"
  by (simp add: updateTicker_resume_def)

lemma updateTicker_resume_local:
  "dom st ''ticker-content'' = dom st' ''ticker-content'' \<Longrightarrow>
     dom (snd (updateTicker_resume content st)) ''ticker-content'' =
     dom (snd (updateTicker_resume content st')) ''ticker-content''"
  by (simp add: updateTicker_resume_def)

subsection \<open>Regions\<close>

lemma ownIds_disjoint: "r \<noteq> r' \<Longrightarrow> j \<in> set (ownIds r) \<Longrightarrow> j \<notin> set (ownIds r')"
  by (cases r; cases r'; auto)

lemma renderRegion_frame:
  "j \<notin> set (ownIds r) \<Longrightarrow> dom (snd (renderRegion h env st0 r st)) j = dom st j"
proof (cases r)
  case RegionTicker
  assume "j \<notin> set (ownIds r)"
  then have "j \<noteq> ''ticker-content''" by (simp add: RegionTicker)
  then show ?thesis
    by (simp add: RegionTicker renderRegion_def updateTicker_resume_frame split: sum.splits)
qed (simp_all add: renderRegion_def updateASPI_resume_frame updateMarketSummary_resume_frame
      showTable_frame updateTopGainers_resume_def updateTopLosers_resume_def
      updateMostActive_resume_def)

lemma renderRegion_local:
  assumes "\<forall>i \<in> set (ownIds r). dom st i = dom st' i" and "j \<in> set (ownIds r)"
  shows "dom (snd (renderRegion h env st0 r st)) j = dom (snd (renderRegion h env st0 r st')) j"
proof (cases r)
  case RegionASPI
  have a: "dom st ''ASPI'' = dom st' ''ASPI''" "dom st ''aspi-index'' = dom st' ''aspi-index''"
    "dom st ''aspi-change'' = dom st' ''aspi-change''"
    using assms(1) by (simp_all add: RegionASPI)
  have j: "j = ''ASPI'' \<or> j = ''aspi-index'' \<or> j = ''aspi-change''"
    using assms(2) by (simp add: RegionASPI)
  show ?thesis
    using updateASPI_resume_local[OF a j] by (simp add: RegionASPI renderRegion_def)
next
  case RegionGainers
  have a: "dom st ''gainers'' = dom st' ''gainers''" "dom st ''top-gainers'' = dom st' ''top-gainers''"
    using assms(1) by (simp_all add: RegionGainers)
  have j: "j = ''gainers'' \<or> j = ''top-gainers''"
    using assms(2) by (simp add: RegionGainers)
  show ?thesis
    using showTable_local[OF a j]
    by (simp add: RegionGainers renderRegion_def updateTopGainers_resume_def)
next
  case RegionLosers
  have a: "dom st ''losers'' = dom st' ''losers''" "dom st ''top-losers'' = dom st' ''top-losers''"
    using assms(1) by (simp_all add: RegionLosers)
  have j: "j = ''losers'' \<or> j = ''top-losers''"
    using assms(2) by (simp add: RegionLosers)
  show ?thesis
    using showTable_local[OF a j]
    by (simp add: RegionLosers renderRegion_def updateTopLosers_resume_def)
next
  case RegionActive
  have a: "dom st ''active'' = dom st' ''active''" "dom st ''most-active'' = dom st' ''most-active''"
    using assms(1) by (simp_all add: RegionActive)
  have j: "j = ''active'' \<or> j = ''most-active''"
    using assms(2) by (simp add: RegionActive)
  show ?thesis
    using showTable_local[OF a j]
    by (simp add: RegionActive renderRegion_def updateMostActive_resume_def)
next
  case RegionSummary
  have a: "dom st ''summary'' = dom st' ''summary''"
    "dom st ''market-aspi'' = dom st' ''market-aspi''"
    "dom st ''market-turnover'' = dom st' ''market-turnover''"
    "dom st ''market-cap'' = dom st' ''market-cap''"
    "dom st ''market-change'' = dom st' ''market-change''"
    using assms(1) by (simp_all add: RegionSummary)
  have j: "j = ''summary'' \<or> j = ''market-aspi'' \<or> j = ''market-turnover'' \<or>
      j = ''market-cap'' \<or> j = ''market-change''"
    using assms(2) by (simp add: RegionSummary)
  show ?thesis
    using updateMarketSummary_resume_local[OF a j] by (simp add: RegionSummary renderRegion_def)
next
  case RegionTicker
  have a: "dom st ''ticker-content'' = dom st' ''ticker-content''"
    using assms(1) by (simp add: RegionTicker)
  have j: "j = ''ticker-content''"
    using assms(2) by (simp add: RegionTicker)
  show ?thesis
    using updateTicker_resume_local[OF a] a
    by (simp add: RegionTicker renderRegion_def j split: sum.splits)
qed

lemma resumeUpdate_frame:
  "j \<notin> set (ownIds r) \<Longrightarrow> dom (snd (resumeUpdate h env st0 r st)) j = dom st j"
  using resumeUpdate_render[of st h env st0 r] renderRegion_frame[of j r h env st0]
  by auto

lemma resumeUpdate_local:
  assumes "\<forall>i \<in> set (ownIds r). dom st i = dom st' i" and "j \<in> set (ownIds r)"
  shows "dom (snd (resumeUpdate h env st0 r st)) j = dom (snd (resumeUpdate h env st0 r st')) j"
proof -
  obtain st1 where a: "dom st1 = dom st" "resumeUpdate h env st0 r st = renderRegion h env st0 r st1"
    using resumeUpdate_render[of st h env st0 r] by blast
  obtain st1' where b: "dom st1' = dom st'" "resumeUpdate h env st0 r st' = renderRegion h env st0 r st1'"
    using resumeUpdate_render[of st' h env st0 r] by blast
  have "\<forall>i \<in> set (ownIds r). dom st1 i = dom st1' i" using assms(1) a(1) b(1) by simp
  from renderRegion_local[OF this assms(2)] show ?thesis using a(2) b(2) by simp
qed

lemma dom_settle:
  "dom (fst (settle h env st0 r (st, rejected))) = dom (snd (resumeUpdate h env st0 r st))"
  by (simp add: settle_def split: prod.splits sum.splits)

lemma fold_settle_frame:
  "r \<notin> set order \<Longrightarrow> j \<in> set (ownIds r) \<Longrightarrow>
     dom (fst (fold (settle h env st0) order (st, rejected))) j = dom st j"
proof (induction order arbitrary: st rejected)
  case Nil
  then show ?case by simp
next
  case (Cons x xs)
  obtain st' rej' where s: "settle h env st0 x (st, rejected) = (st', rej')"
    by (cases "settle h env st0 x (st, rejected)")
  have "x \<noteq> r" using Cons.prems(1) by auto
  then have "j \<notin> set (ownIds x)" using ownIds_disjoint[of r x j] Cons.prems(2) by auto
  then have "dom st' j = dom st j"
    using dom_settle[of h env st0 x st rejected] resumeUpdate_frame[of j x h env st0 st] s by simp
  moreover have "dom (fst (fold (settle h env st0) xs (st', rej'))) j = dom st' j"
    using Cons.IH[of st' rej'] Cons.prems by simp
  ultimately show ?case by (simp add: s)
qed

lemma fold_settle_outside:
  "\<forall>r. j \<notin> set (ownIds r) \<Longrightarrow>
     dom (fst (fold (settle h env st0) order (st, rejected))) j = dom st j"
proof (induction order arbitrary: st rejected)
  case Nil
  then show ?case by simp
next
  case (Cons x xs)
  obtain st' rej' where s: "settle h env st0 x (st, rejected) = (st', rej')"
    by (cases "settle h env st0 x (st, rejected)")
  have "dom st' j = dom st j"
    using dom_settle[of h env st0 x st rejected] resumeUpdate_frame[of j x h env st0 st] s Cons.prems
    by simp
  moreover have "dom (fst (fold (settle h env st0) xs (st', rej'))) j = dom st' j"
    using Cons.IH[of st' rej'] Cons.prems by simp
  ultimately show ?case by (simp add: s)
qed

lemma fold_settle_own:
  "distinct order \<Longrightarrow> r \<in> set order \<Longrightarrow> j \<in> set (ownIds r) \<Longrightarrow>
     dom (fst (fold (settle h env st0) order (st, rejected))) j =
     dom (snd (resumeUpdate h env st0 r st)) j"
proof (induction order arbitrary: st rejected)
  case Nil
  then show ?case by simp
next
  case (Cons x xs)
  obtain st' rej' where s: "settle h env st0 x (st, rejected) = (st', rej')"
    by (cases "settle h env st0 x (st, rejected)")
  have d: "dom st' = dom (snd (resumeUpdate h env st0 x st))"
    using dom_settle[of h env st0 x st rejected] s by simp
  show ?case
  proof (cases "x = r")
    case True
    then have "r \<notin> set xs" using Cons.prems(1) by simp
    from fold_settle_frame[OF this Cons.prems(3), of h env st0 st' rej']
    have "dom (fst (fold (settle h env st0) xs (st', rej'))) j = dom st' j" .
    then have "dom (fst (fold (settle h env st0) (x # xs) (st, rejected))) j =
        dom (snd (resumeUpdate h env st0 x st)) j"
      using d by (simp add: s)
    then show ?thesis unfolding True .
  next
    case False
    then have in_xs: "r \<in> set xs" using Cons.prems(2) by simp
    have "\<forall>i \<in> set (ownIds r). dom st' i = dom st i"
    proof
      fix i assume "i \<in> set (ownIds r)"
      then have "i \<notin> set (ownIds x)" using ownIds_disjoint[of r x i] False by auto
      then show "dom st' i = dom st i" using d resumeUpdate_frame[of i x h env st0 st] by simp
    qed
    from resumeUpdate_local[OF this Cons.prems(3), of h env st0]
    have "dom (snd (resumeUpdate h env st0 r st')) j = dom (snd (resumeUpdate h env st0 r st)) j" .
    moreover have "dom (fst (fold (settle h env st0) xs (st', rej'))) j =
        dom (snd (resumeUpdate h env st0 r st')) j"
      using Cons.IH[of st' rej'] Cons.prems(1,3) in_xs by simp
    ultimately show ?thesis by (simp add: s)
  qed
qed

lemma resumeGetter_cache_cong:
  "c k = c' k \<Longrightarrow> resumeGetter k ep env c st = resumeGetter k ep env c' st"
  by (simp add: resumeGetter_def getCachedData_def)

lemma resumeGetter_other_key:
  "k' \<noteq> k \<Longrightarrow> cache (snd (resumeGetter k ep env c0 st)) k' = cache st k'"
  by (simp add: resumeGetter_def awaitApiCall_def setCachedData_def Let_def
      split: prod.splits sum.splits)

lemma resumeUpdate_alone: "resumeUpdate h env st r st = updateRegion h env r st"
proof (cases r)
  case RegionTicker
  obtain g st1 where g1: "resumeGetter ''topGainers'' ''/topGainers'' (ticker_gainers_call env)
      (cache st) st = (g, st1)"
    by (cases "resumeGetter ''topGainers'' ''/topGainers'' (ticker_gainers_call env) (cache st) st")
  have "cache st1 ''topLosers'' = cache st ''topLosers''"
    using resumeGetter_other_key[of "''topLosers''" "''topGainers''" "''/topGainers''"
        "ticker_gainers_call env" "cache st" st] g1
    by simp
  then have "resumeGetter ''topLosers'' ''/topLosers'' (ticker_losers_call env) (cache st1) st1 =
      resumeGetter ''topLosers'' ''/topLosers'' (ticker_losers_call env) (cache st) st1"
    by (rule resumeGetter_cache_cong)
  then show ?thesis
    unfolding RegionTicker
    by (simp add: resumeUpdate_def updateRegion_def updateTicker_def createTickerContent_def
        getTopGainers_def getTopLosers_def cachedGetter_resumeGetter thenDo_def g1
        split: sum.splits)
qed (simp_all add: resumeUpdate_def updateRegion_def updateASPI_def updateTopGainers_def
      updateTopLosers_def updateMostActive_def updateMarketSummary_def
      getMarketSummary_def getTopGainers_def getTopLosers_def
      getMostActive_def cachedGetter_resumeGetter)

lemma resumeUpdate_env:
  "callsOf env' r = callsOf env r \<Longrightarrow> resumeUpdate h env' st0 r st = resumeUpdate h env st0 r st"
  by (cases r) (simp_all add: resumeUpdate_def)

lemma fst_cachedGetter:
  "fst (cachedGetter key ep env (st :: ui_state)) = Inr (gotData key ep env (cache st))"
  using resumeGetter_result[of key ep env "cache st" st]
  by (auto simp: cachedGetter_resumeGetter)

text \<open>
  C9, as the code has it. Take one pass in any order of completion, and a second pass
  that differs from it only in the getter calls of one update operation, for example
  because they fail. Then every element outside the ids that operation assigns to is
  the same after both passes. After a pass, the elements of every update that completed
  are what that update gives when run by itself from the starting state, with its own
  calls, and an element that no update owns is as it was.
\<close>

theorem initialize_region_isolation:
  "distinct order \<Longrightarrow> \<forall>r'. r' \<noteq> r \<longrightarrow> callsOf env' r' = callsOf env r' \<Longrightarrow>
     (\<forall>j. j \<notin> set (ownIds r) \<longrightarrow>
        dom (initialize h env' order st0) j = dom (initialize h env order st0) j) \<and>
     (\<forall>r' j. r' \<in> set order \<and> j \<in> set (ownIds r') \<longrightarrow>
        dom (initialize h env order st0) j = dom (snd (updateRegion h env r' st0)) j) \<and>
     (\<forall>j. (\<forall>r'. j \<notin> set (ownIds r')) \<longrightarrow> dom (initialize h env order st0) j = dom st0 j)"
proof -
  assume dist: "distinct order" and same: "\<forall>r'. r' \<noteq> r \<longrightarrow> callsOf env' r' = callsOf env r'"
  have own: "dom (initialize h e order st0) j = dom (snd (resumeUpdate h e st0 r' st0)) j"
    if "r' \<in> set order" and "j \<in> set (ownIds r')" for e r' j
    unfolding initialize_def by (rule fold_settle_own[OF dist that])
  have skipped: "dom (initialize h e order st0) j = dom st0 j"
    if "r' \<notin> set order" and "j \<in> set (ownIds r')" for e r' j
    unfolding initialize_def by (rule fold_settle_frame[OF that])
  have outside: "dom (initialize h e order st0) j = dom st0 j"
    if "\<forall>r'. j \<notin> set (ownIds r')" for e j
    unfolding initialize_def by (rule fold_settle_outside[OF that])
  have c1: "dom (initialize h env' order st0) j = dom (initialize h env order st0) j"
    if j: "j \<notin> set (ownIds r)" for j
  proof (cases "\<exists>r'. j \<in> set (ownIds r')")
    case True
    then obtain r' where r': "j \<in> set (ownIds r')" by blast
    then have "r' \<noteq> r" using j by auto
    then have e: "resumeUpdate h env' st0 r' st0 = resumeUpdate h env st0 r' st0"
      using same resumeUpdate_env[of env' r' env h st0 st0] by simp
    show ?thesis
    proof (cases "r' \<in> set order")
      case True
      then show ?thesis using own[OF True r', of env'] own[OF True r', of env] e by simp
    next
      case False
      then show ?thesis using skipped[OF False r', of env'] skipped[OF False r', of env] by simp
    qed
  next
    case False
    then have "\<forall>r'. j \<notin> set (ownIds r')" by blast
    then show ?thesis using outside[of j env'] outside[of j env] by simp
  qed
  have c2: "dom (initialize h env order st0) j = dom (snd (updateRegion h env r' st0)) j"
    if "r' \<in> set order" and "j \<in> set (ownIds r')" for r' j
    using own[OF that, of env] by (simp add: resumeUpdate_alone)
  show ?thesis using c1 c2 outside[of _ env] by blast
qed

theorem initialize_region_isolation_witness:
  "distinct sourceOrder \<and>
   dom (initialize testHost (passOn sampleNet 5) sourceOrder samplePage) ''ticker-content'' =
     dom (initialize testHost gainersCallDown sourceOrder samplePage) ''ticker-content'' \<and>
   dom (initialize testHost (passOn sampleNet 5) sourceOrder samplePage) ''top-losers'' =
     dom (initialize testHost gainersCallDown sourceOrder samplePage) ''top-losers'' \<and>
   dom (initialize testHost gainersCallDown sourceOrder samplePage) ''most-active'' =
     dom (snd (updateRegion testHost gainersCallDown RegionActive samplePage)) ''most-active'' \<and>
   dom (initialize testHost gainersCallDown sourceOrder samplePage) ''footer'' =
     dom samplePage ''footer''"
proof -
  have d: "distinct sourceOrder" by (simp add: sourceOrder_def)
  have s: "\<forall>r'. r' \<noteq> RegionGainers \<longrightarrow>
      callsOf (passOn sampleNet 5) r' = callsOf gainersCallDown r'"
  proof (intro allI impI)
    fix r' :: region
    assume "r' \<noteq> RegionGainers"
    then show "callsOf (passOn sampleNet 5) r' = callsOf gainersCallDown r'"
      by (cases r') (simp_all add: gainersCallDown_def)
  qed
  note t = initialize_region_isolation[OF d s, of testHost samplePage]
  have a: "dom (initialize testHost (passOn sampleNet 5) sourceOrder samplePage) ''ticker-content'' =
     dom (initialize testHost gainersCallDown sourceOrder samplePage) ''ticker-content''"
    using t by simp
  have b: "dom (initialize testHost (passOn sampleNet 5) sourceOrder samplePage) ''top-losers'' =
     dom (initialize testHost gainersCallDown sourceOrder samplePage) ''top-losers''"
    using t by simp
  have i: "RegionActive \<in> set sourceOrder \<and> ''most-active'' \<in> set (ownIds RegionActive)"
    by (simp add: sourceOrder_def)
  have c: "dom (initialize testHost gainersCallDown sourceOrder samplePage) ''most-active'' =
     dom (snd (updateRegion testHost gainersCallDown RegionActive samplePage)) ''most-active''"
    using t i by blast
  have o: "\<forall>r'. ''footer'' \<notin> set (ownIds r')"
  proof
    fix r' show "''footer'' \<notin> set (ownIds r')" by (cases r') simp_all
  qed
  have e: "dom (initialize testHost gainersCallDown sourceOrder samplePage) ''footer'' =
     dom samplePage ''footer''"
    using t o by blast
  show ?thesis using d a b c e by simp
qed

text \<open>
  C9 as the specification words it fails. With the \<open>/topGainers\<close> endpoint down for the
  whole pass, the ticker, which the claim counts among the regions that render as with
  no failure, shows the losers only; with the endpoint up it shows the gainers too.
\<close>

theorem gainers_source_down_changes_ticker:
  "dom (initialize testHost (passOn gainersDownNet 5) sourceOrder samplePage) ''ticker-content'' =
     Some \<lparr>body = TextContent ''ZZZ: LKR 5.00 (-2.50%)'', className = []\<rparr> \<and>
   dom (initialize testHost (passOn sampleNet 5) sourceOrder samplePage) ''ticker-content'' =
     Some \<lparr>body = TextContent
        (''AAA: LKR 10.00 (+1.50%) '' @ bullet @ '' BBB: LKR 20.00 (+1.00%) '' @ bullet @
         '' CCC: LKR 0.00 (+0.00%) '' @ bullet @ '' ZZZ: LKR 5.00 (-2.50%)''), className = []\<rparr>"
proof -
  have a: "dom (initialize testHost (passOn gainersDownNet 5) sourceOrder samplePage)
      ''ticker-content'' =
     Some \<lparr>body = TextContent ''ZZZ: LKR 5.00 (-2.50%)'', className = []\<rparr>"
    by code_simp
  have b: "dom (initialize testHost (passOn sampleNet 5) sourceOrder samplePage) ''ticker-content'' =
     Some \<lparr>body = TextContent
        (''AAA: LKR 10.00 (+1.50%) '' @ bullet @ '' BBB: LKR 20.00 (+1.00%) '' @ bullet @
         '' CCC: LKR 0.00 (+0.00%) '' @ bullet @ '' ZZZ: LKR 5.00 (-2.50%)''), className = []\<rparr>"
    by code_simp
  show ?thesis using a b by (rule conjI)
qed

section \<open>The ticker\<close>






end
